theory Spec2Isabelle
  imports Main "HOL-Library.AList" "HOL-Library.Sublist"
begin

section \<open>Library management system: entities, catalog, persistence, transaction\<close>

text \<open>
  The development embeds \<^verbatim>\<open>models.py\<close>, \<^verbatim>\<open>decorators.py\<close>, \<^verbatim>\<open>exceptions.py\<close> and
  \<^verbatim>\<open>library.py\<close>. Conventions:
  \<^item> a Python \<^verbatim>\<open>str\<close> is a \<open>string\<close>, one \<open>char\<close> per code point; code points from 256 on
    are outside the model;
  \<^item> a Python \<^verbatim>\<open>int\<close> is an \<open>int\<close>;
  \<^item> a \<^verbatim>\<open>dict\<close> is an association list in insertion order: \<open>map_of\<close> looks a key up,
    \<open>AList.update\<close> stores a value (in place for a key that is present, at the end for a new
    key, as Python does);
  \<^item> a method that mutates \<^verbatim>\<open>self\<close> takes the object and returns the outcome together with
    the object as the method left it, also when it raises;
  \<^item> \<^verbatim>\<open>datetime.now()\<close> is an argument \<open>now\<close> of every function that reads the clock.
\<close>

subsection \<open>Exceptions\<close>

text \<open>
  The message of a built-in exception is kept as a tag with the values formatted into it,
  one tag for each message text of the source.
\<close>

datatype message =
    IsbnTooShort               \<comment> \<open>Book.__post_init__ and validate_isbn\<close>
  | TitleEmpty
  | AuthorEmpty
  | YearOutOfRange int         \<comment> \<open>carries current_year\<close>
  | MemberIdEmpty
  | NameEmpty
  | EmailWithoutAt
  | AlreadyBorrowed            \<comment> \<open>Book.borrow\<close>
  | NotBorrowed                \<comment> \<open>Book.return_book\<close>
  | BookExists string          \<comment> \<open>Library.add_book\<close>
  | MemberExists string        \<comment> \<open>Library.add_member\<close>
  | MemberIdRequired           \<comment> \<open>require_member\<close>
  | NotBorrowedBy string string  \<comment> \<open>Library.return_book: isbn, member_id\<close>
  | InvalidIsoformat string    \<comment> \<open>datetime.fromisoformat\<close>
  | DaysTooLarge int           \<comment> \<open>timedelta(days=...)\<close>
  | DateOutOfRange             \<comment> \<open>datetime + timedelta\<close>
  | Text string                \<comment> \<open>any other text\<close>

datatype error =
    ValueError message
  | RuntimeError message
  | OverflowError message
  | KeyError string
  | JSONDecodeError string
  | BookNotFoundError string
  | BookNotAvailableError string
  | MemberNotFoundError string
  | BorrowLimitExceededError string int
  | InvalidDataError error     \<comment> \<open>the message is formatted from the error it carries\<close>
  | IllTyped string            \<comment> \<open>not an exception: a value of another type than annotated\<close>
  | Unmodelled string          \<comment> \<open>not an exception: an input the model does not follow\<close>

text \<open>
  \<open>IllTyped\<close> marks the places where a value read from a dict has another dynamic type than
  the annotation of the field it goes to. Python either raises \<^verbatim>\<open>TypeError\<close> there or builds
  an object that the typed records below cannot hold; the model stops with the marker and
  says nothing more about such inputs. \<open>Unmodelled\<close> marks an input on which a function of
  the standard library is not followed.
\<close>

type_synonym 'a result = "error + 'a"

definition bind_result :: "'a result \<Rightarrow> ('a \<Rightarrow> 'b result) \<Rightarrow> 'b result" where
  "bind_result r f = (case r of Inl e \<Rightarrow> Inl e | Inr v \<Rightarrow> f v)"

subsection \<open>Dynamic values: what a dict of \<^verbatim>\<open>to_dict\<close> holds and what \<^verbatim>\<open>json.load\<close> returns\<close>

datatype pyval =
    VNone
  | VBool bool
  | VInt int
  | VStr string
  | VList "pyval list"
  | VDict "(string \<times> pyval) list"

type_synonym pydict = "(string \<times> pyval) list"

fun truthy :: "pyval \<Rightarrow> bool" where
  "truthy VNone = False"
| "truthy (VBool b) = b"
| "truthy (VInt n) = (n \<noteq> 0)"
| "truthy (VStr s) = (s \<noteq> [])"
| "truthy (VList xs) = (xs \<noteq> [])"
| "truthy (VDict kvs) = (kvs \<noteq> [])"

definition getitem :: "pydict \<Rightarrow> string \<Rightarrow> pyval result" where
  \<comment> \<open>\<^verbatim>\<open>data[key]\<close>\<close>
  "getitem data key = (case map_of data key of None \<Rightarrow> Inl (KeyError key) | Some v \<Rightarrow> Inr v)"

definition get_default :: "pydict \<Rightarrow> string \<Rightarrow> pyval \<Rightarrow> pyval" where
  \<comment> \<open>\<^verbatim>\<open>data.get(key, default)\<close>; \<^verbatim>\<open>data.get(key)\<close> is \<open>get_default data key VNone\<close>\<close>
  "get_default data key dflt = (case map_of data key of None \<Rightarrow> dflt | Some v \<Rightarrow> v)"

subsection \<open>\<^verbatim>\<open>datetime\<close>: naive timestamps of the standard library\<close>

record datetime =
  dt_year :: int
  dt_month :: int
  dt_day :: int
  dt_hour :: int
  dt_minute :: int
  dt_second :: int
  dt_microsecond :: int

definition is_leap :: "int \<Rightarrow> bool" where
  "is_leap y = (y mod 4 = 0 \<and> (y mod 100 \<noteq> 0 \<or> y mod 400 = 0))"

definition days_in_month :: "int \<Rightarrow> int \<Rightarrow> int" where
  "days_in_month y m =
     (if m = 2 then (if is_leap y then 29 else 28)
      else if m = 4 \<or> m = 6 \<or> m = 9 \<or> m = 11 then 30 else 31)"

definition valid_datetime :: "datetime \<Rightarrow> bool" where
  \<comment> \<open>the range checks of the \<^verbatim>\<open>datetime\<close> constructor; every \<^verbatim>\<open>datetime\<close> object passes them\<close>
  "valid_datetime d =
     (1 \<le> dt_year d \<and> dt_year d \<le> 9999 \<and>
      1 \<le> dt_month d \<and> dt_month d \<le> 12 \<and>
      1 \<le> dt_day d \<and> dt_day d \<le> days_in_month (dt_year d) (dt_month d) \<and>
      0 \<le> dt_hour d \<and> dt_hour d \<le> 23 \<and>
      0 \<le> dt_minute d \<and> dt_minute d \<le> 59 \<and>
      0 \<le> dt_second d \<and> dt_second d \<le> 59 \<and>
      0 \<le> dt_microsecond d \<and> dt_microsecond d \<le> 999999)"

paragraph \<open>Ordinals: day 1 is 0001-01-01 (\<^verbatim>\<open>date.toordinal\<close>, \<^verbatim>\<open>date.fromordinal\<close>)\<close>

definition days_before_year :: "int \<Rightarrow> int" where
  "days_before_year y = (y - 1) * 365 + (y - 1) div 4 - (y - 1) div 100 + (y - 1) div 400"

definition days_before_month :: "int \<Rightarrow> int \<Rightarrow> int" where
  "days_before_month y m =
     [0, 0, 31, 59, 90, 120, 151, 181, 212, 243, 273, 304, 334] ! nat m
       + (if m > 2 \<and> is_leap y then 1 else 0)"

definition ymd2ord :: "int \<Rightarrow> int \<Rightarrow> int \<Rightarrow> int" where
  "ymd2ord y m d = days_before_year y + days_before_month y m + d"

definition month_day :: "bool \<Rightarrow> int \<Rightarrow> int \<times> int" where
  \<comment> \<open>month and day of day number \<open>n\<close> (from 0) of a year\<close>
  "month_day leapyear n =
     (let m = (n + 50) div 32;
          preceding = [0, 0, 31, 59, 90, 120, 151, 181, 212, 243, 273, 304, 334] ! nat m
                        + (if m > 2 \<and> leapyear then 1 else 0)
      in if preceding > n
         then (m - 1,
               n - (preceding
                    - ([0, 31, 28, 31, 30, 31, 30, 31, 31, 30, 31, 30, 31] ! nat (m - 1)
                       + (if m - 1 = 2 \<and> leapyear then 1 else 0))) + 1)
         else (m, n - preceding + 1))"

definition ord2ymd :: "int \<Rightarrow> int \<times> int \<times> int" where
  "ord2ymd ordinal =
     (let n = ordinal - 1;
          n400 = n div 146097; n = n mod 146097;
          n100 = n div 36524; n = n mod 36524;
          n4 = n div 1461; n = n mod 1461;
          n1 = n div 365; n = n mod 365;
          y = n400 * 400 + 1 + n100 * 100 + n4 * 4 + n1
      in if n1 = 4 \<or> n100 = 4 then (y - 1, 12, 31)
         else
           let leapyear = (n1 = 3 \<and> (n4 \<noteq> 24 \<or> n100 = 3))
           in case month_day leapyear n of (m, d) \<Rightarrow> (y, m, d))"

definition max_ordinal :: int where
  "max_ordinal = 3652059"   \<comment> \<open>9999-12-31\<close>

definition timedelta :: "int \<Rightarrow> int result" where
  \<comment> \<open>\<^verbatim>\<open>timedelta(days=days)\<close>: the number of days, at most 999999999 in magnitude\<close>
  "timedelta days =
     (if \<bar>days\<bar> > 999999999 then Inl (OverflowError (DaysTooLarge days)) else Inr days)"

definition datetime_add :: "datetime \<Rightarrow> int \<Rightarrow> datetime result" where
  \<comment> \<open>\<^verbatim>\<open>dt + delta\<close> for a delta of whole days: the time of day stays\<close>
  "datetime_add dt delta =
     (let n = ymd2ord (dt_year dt) (dt_month dt) (dt_day dt) + delta
      in if 0 < n \<and> n \<le> max_ordinal
         then (case ord2ymd n of (y, m, d) \<Rightarrow>
                 Inr (dt\<lparr>dt_year := y, dt_month := m, dt_day := d\<rparr>))
         else Inl (OverflowError DateOutOfRange))"

paragraph \<open>\<^verbatim>\<open>isoformat\<close> and \<^verbatim>\<open>fromisoformat\<close>\<close>

definition digit_char :: "int \<Rightarrow> char" where
  "digit_char n = char_of (48 + nat n)"

fun zfill :: "nat \<Rightarrow> int \<Rightarrow> string" where
  \<comment> \<open>\<^verbatim>\<open>"%0kd" % n\<close> for \<open>0 \<le> n < 10 ^ k\<close>\<close>
  "zfill 0 n = []"
| "zfill (Suc k) n = zfill k (n div 10) @ [digit_char (n mod 10)]"

definition isoformat :: "datetime \<Rightarrow> string" where
  "isoformat d =
     zfill 4 (dt_year d) @ ''-'' @ zfill 2 (dt_month d) @ ''-'' @ zfill 2 (dt_day d) @ ''T'' @
     zfill 2 (dt_hour d) @ '':'' @ zfill 2 (dt_minute d) @ '':'' @ zfill 2 (dt_second d) @
     (if dt_microsecond d \<noteq> 0 then ''.'' @ zfill 6 (dt_microsecond d) else [])"

definition is_digit :: "char \<Rightarrow> bool" where
  "is_digit c = (48 \<le> (of_char c :: nat) \<and> (of_char c :: nat) \<le> 57)"

definition digits_value :: "string \<Rightarrow> int" where
  "digits_value s = foldl (\<lambda>acc c. acc * 10 + (int (of_char c) - 48)) 0 s"

definition take_number :: "nat \<Rightarrow> string \<Rightarrow> (int \<times> string) option" where
  \<comment> \<open>reads exactly \<open>k\<close> decimal digits\<close>
  "take_number k s =
     (if k \<le> length s \<and> list_all is_digit (take k s)
      then Some (digits_value (take k s), drop k s) else None)"

definition take_char :: "char \<Rightarrow> string \<Rightarrow> string option" where
  "take_char c s = (case s of [] \<Rightarrow> None | x # rest \<Rightarrow> if x = c then Some rest else None)"

definition take_any :: "string \<Rightarrow> string option" where
  "take_any s = (case s of [] \<Rightarrow> None | x # rest \<Rightarrow> Some rest)"

definition parse_isoformat :: "string \<Rightarrow> datetime option" where
  \<comment> \<open>\<^verbatim>\<open>YYYY-MM-DD*HH:MM:SS\<close> with an optional \<^verbatim>\<open>.ffffff\<close>; \<^verbatim>\<open>*\<close> is any one character\<close>
  "parse_isoformat s =
     Option.bind (take_number 4 s) (\<lambda>(y, s).
     Option.bind (take_char CHR ''-'' s) (\<lambda>s.
     Option.bind (take_number 2 s) (\<lambda>(m, s).
     Option.bind (take_char CHR ''-'' s) (\<lambda>s.
     Option.bind (take_number 2 s) (\<lambda>(d, s).
     Option.bind (take_any s) (\<lambda>s.
     Option.bind (take_number 2 s) (\<lambda>(hh, s).
     Option.bind (take_char CHR '':'' s) (\<lambda>s.
     Option.bind (take_number 2 s) (\<lambda>(mm, s).
     Option.bind (take_char CHR '':'' s) (\<lambda>s.
     Option.bind (take_number 2 s) (\<lambda>(ss, s).
     if s = [] then
       Some \<lparr>dt_year = y, dt_month = m, dt_day = d, dt_hour = hh, dt_minute = mm,
             dt_second = ss, dt_microsecond = 0\<rparr>
     else
       Option.bind (take_char CHR ''.'' s) (\<lambda>s.
       Option.bind (take_number 6 s) (\<lambda>(us, s).
       if s = [] then
         Some \<lparr>dt_year = y, dt_month = m, dt_day = d, dt_hour = hh, dt_minute = mm,
               dt_second = ss, dt_microsecond = us\<rparr>
       else None))
     )))))))))))"

definition fromisoformat :: "string \<Rightarrow> datetime result" where
  \<comment> \<open>on the texts \<open>isoformat\<close> writes: the fields, range-checked by the constructor\<close>
  "fromisoformat s =
     (case parse_isoformat s of
        None \<Rightarrow> Inl (Unmodelled s)
      | Some d \<Rightarrow> if valid_datetime d then Inr d else Inl (ValueError (InvalidIsoformat s)))"

text \<open>
  \<^verbatim>\<open>datetime.fromisoformat\<close> reads further ISO 8601 forms (a date alone, a time without
  seconds, an offset), different ones in different versions of Python, and raises
  \<^verbatim>\<open>ValueError\<close> on the rest. The model follows it on the form above and stops with the
  marker \<open>Unmodelled\<close> on any other text.
\<close>

subsection \<open>Coercions from dynamic values to the annotated field types\<close>

definition as_str :: "string \<Rightarrow> pyval \<Rightarrow> string result" where
  "as_str field v = (case v of VStr s \<Rightarrow> Inr s | _ \<Rightarrow> Inl (IllTyped field))"

definition as_int :: "string \<Rightarrow> pyval \<Rightarrow> int result" where
  "as_int field v = (case v of VInt n \<Rightarrow> Inr n | _ \<Rightarrow> Inl (IllTyped field))"

definition as_bool :: "string \<Rightarrow> pyval \<Rightarrow> bool result" where
  "as_bool field v = (case v of VBool b \<Rightarrow> Inr b | _ \<Rightarrow> Inl (IllTyped field))"

definition as_opt_str :: "string \<Rightarrow> pyval \<Rightarrow> string option result" where
  "as_opt_str field v =
     (case v of VNone \<Rightarrow> Inr None | VStr s \<Rightarrow> Inr (Some s) | _ \<Rightarrow> Inl (IllTyped field))"

fun as_str_list :: "string \<Rightarrow> pyval list \<Rightarrow> string list result" where
  "as_str_list field [] = Inr []"
| "as_str_list field (v # vs) =
     bind_result (as_str field v) (\<lambda>s.
     bind_result (as_str_list field vs) (\<lambda>ss. Inr (s # ss)))"

definition as_list :: "string \<Rightarrow> pyval \<Rightarrow> pyval list result" where
  "as_list field v = (case v of VList vs \<Rightarrow> Inr vs | _ \<Rightarrow> Inl (IllTyped field))"

definition iterate :: "string \<Rightarrow> pyval \<Rightarrow> pyval list result" where
  \<comment> \<open>\<^verbatim>\<open>for data in v\<close>: the items of a list, the keys of a dict, the characters of a str\<close>
  "iterate field v =
     (case v of
        VList vs \<Rightarrow> Inr vs
      | VDict kvs \<Rightarrow> Inr (map (\<lambda>kv. VStr (fst kv)) kvs)
      | VStr s \<Rightarrow> Inr (map (\<lambda>c. VStr [c]) s)
      | _ \<Rightarrow> Inl (IllTyped field))"

definition as_dict :: "string \<Rightarrow> pyval \<Rightarrow> pydict result" where
  "as_dict field v = (case v of VDict d \<Rightarrow> Inr d | _ \<Rightarrow> Inl (IllTyped field))"

subsection \<open>\<^verbatim>\<open>models.py\<close>: Book\<close>

record book =
  isbn :: string
  title :: string
  author :: string
  year :: int
  available :: bool
  borrowed_by :: "string option"
  due_date :: "datetime option"

definition Book_post_init :: "datetime \<Rightarrow> book \<Rightarrow> unit result" where
  "Book_post_init now self =
     (let current_year = dt_year now
      in if isbn self = [] \<or> length (isbn self) < 10 then Inl (ValueError IsbnTooShort)
         else if title self = [] then Inl (ValueError TitleEmpty)
         else if author self = [] then Inl (ValueError AuthorEmpty)
         else if \<not> (1000 \<le> year self \<and> year self \<le> current_year)
           then Inl (ValueError (YearOutOfRange current_year))
         else Inr ())"

definition Book ::
  "datetime \<Rightarrow> string \<Rightarrow> string \<Rightarrow> string \<Rightarrow> int \<Rightarrow> bool \<Rightarrow> string option \<Rightarrow> datetime option
     \<Rightarrow> book result" where
  \<comment> \<open>the generated \<^verbatim>\<open>__init__\<close>: store the seven fields, then \<^verbatim>\<open>__post_init__\<close>\<close>
  "Book now i t a y av bb dd =
     (let self = \<lparr>isbn = i, title = t, author = a, year = y, available = av,
                  borrowed_by = bb, due_date = dd\<rparr>
      in bind_result (Book_post_init now self) (\<lambda>_. Inr self))"

definition Book_borrow :: "datetime \<Rightarrow> string \<Rightarrow> int \<Rightarrow> book \<Rightarrow> unit result \<times> book" where
  \<comment> \<open>the two assignments precede the computation of the due date, which can raise\<close>
  "Book_borrow now mid days self =
     (if \<not> available self then (Inl (RuntimeError AlreadyBorrowed), self)
      else
        let self = self\<lparr>available := False\<rparr>;
            self = self\<lparr>borrowed_by := Some mid\<rparr>
        in case bind_result (timedelta days) (datetime_add now) of
             Inl e \<Rightarrow> (Inl e, self)
           | Inr due \<Rightarrow> (Inr (), self\<lparr>due_date := Some due\<rparr>))"

definition Book_return_book :: "book \<Rightarrow> unit result \<times> book" where
  "Book_return_book self =
     (if available self then (Inl (RuntimeError NotBorrowed), self)
      else (Inr (), self\<lparr>available := True, borrowed_by := None, due_date := None\<rparr>))"

definition Book_to_dict :: "book \<Rightarrow> pydict" where
  "Book_to_dict self =
     [(''isbn'', VStr (isbn self)),
      (''title'', VStr (title self)),
      (''author'', VStr (author self)),
      (''year'', VInt (year self)),
      (''available'', VBool (available self)),
      (''borrowed_by'', case borrowed_by self of None \<Rightarrow> VNone | Some m \<Rightarrow> VStr m),
      (''due_date'', case due_date self of None \<Rightarrow> VNone | Some d \<Rightarrow> VStr (isoformat d))]"

definition Book_from_dict :: "datetime \<Rightarrow> pydict \<Rightarrow> book result" where
  "Book_from_dict now data =
     bind_result
       (if truthy (get_default data ''due_date'' VNone)
        then bind_result (as_str ''due_date'' (get_default data ''due_date'' VNone)) (\<lambda>s.
             bind_result (fromisoformat s) (\<lambda>d. Inr (Some d)))
        else Inr None) (\<lambda>due.
     bind_result (getitem data ''isbn'') (\<lambda>vi.
     bind_result (getitem data ''title'') (\<lambda>vt.
     bind_result (getitem data ''author'') (\<lambda>va.
     bind_result (getitem data ''year'') (\<lambda>vy.
     bind_result (as_str ''isbn'' vi) (\<lambda>i.
     bind_result (as_str ''title'' vt) (\<lambda>t.
     bind_result (as_str ''author'' va) (\<lambda>a.
     bind_result (as_int ''year'' vy) (\<lambda>y.
     bind_result (as_bool ''available'' (get_default data ''available'' (VBool True))) (\<lambda>av.
     bind_result (as_opt_str ''borrowed_by'' (get_default data ''borrowed_by'' VNone)) (\<lambda>bb.
     Book now i t a y av bb due)))))))))))"

subsection \<open>\<^verbatim>\<open>models.py\<close>: Member\<close>

record member =
  member_id :: string
  name :: string
  email :: string
  borrowed_books :: "string list"
  max_books :: int

definition Member_post_init :: "member \<Rightarrow> unit result" where
  "Member_post_init self =
     (if member_id self = [] then Inl (ValueError MemberIdEmpty)
      else if name self = [] then Inl (ValueError NameEmpty)
      else if CHR ''@'' \<notin> set (email self) then Inl (ValueError EmailWithoutAt)
      else Inr ())"

definition Member :: "string \<Rightarrow> string \<Rightarrow> string \<Rightarrow> string list \<Rightarrow> int \<Rightarrow> member result" where
  "Member mid nm em bs mx =
     (let self = \<lparr>member_id = mid, name = nm, email = em, borrowed_books = bs,
                  max_books = mx\<rparr>
      in bind_result (Member_post_init self) (\<lambda>_. Inr self))"

definition can_borrow :: "member \<Rightarrow> bool" where
  "can_borrow self = (int (length (borrowed_books self)) < max_books self)"

definition add_borrowed_book :: "string \<Rightarrow> member \<Rightarrow> member" where
  "add_borrowed_book i self =
     (if i \<notin> set (borrowed_books self)
      then self\<lparr>borrowed_books := borrowed_books self @ [i]\<rparr> else self)"

definition remove_borrowed_book :: "string \<Rightarrow> member \<Rightarrow> member" where
  \<comment> \<open>\<^verbatim>\<open>list.remove\<close> drops the first occurrence\<close>
  "remove_borrowed_book i self =
     (if i \<in> set (borrowed_books self)
      then self\<lparr>borrowed_books := remove1 i (borrowed_books self)\<rparr> else self)"

definition Member_to_dict :: "member \<Rightarrow> pydict" where
  "Member_to_dict self =
     [(''member_id'', VStr (member_id self)),
      (''name'', VStr (name self)),
      (''email'', VStr (email self)),
      (''borrowed_books'', VList (map VStr (borrowed_books self))),
      (''max_books'', VInt (max_books self))]"

definition Member_from_dict :: "pydict \<Rightarrow> member result" where
  "Member_from_dict data =
     bind_result (getitem data ''member_id'') (\<lambda>vm.
     bind_result (getitem data ''name'') (\<lambda>vn.
     bind_result (getitem data ''email'') (\<lambda>ve.
     bind_result (as_str ''member_id'' vm) (\<lambda>mid.
     bind_result (as_str ''name'' vn) (\<lambda>nm.
     bind_result (as_str ''email'' ve) (\<lambda>em.
     bind_result (as_list ''borrowed_books'' (get_default data ''borrowed_books'' (VList [])))
       (\<lambda>vs.
     bind_result (as_str_list ''borrowed_books'' vs) (\<lambda>bs.
     bind_result (as_int ''max_books'' (get_default data ''max_books'' (VInt 3))) (\<lambda>mx.
     Member mid nm em bs mx)))))))))"

subsection \<open>\<^verbatim>\<open>decorators.py\<close>\<close>

text \<open>
  A decorated method is a function from the object to the outcome and the object. Logging
  and timing leave both alone; the two argument checks raise before the method runs.
  The arguments are typed, so the \<^verbatim>\<open>isinstance(isbn, str)\<close> check always passes.
\<close>

definition log_operation :: "('s \<Rightarrow> 'a result \<times> 's) \<Rightarrow> 's \<Rightarrow> 'a result \<times> 's" where
  "log_operation func = func"

definition measure_time :: "('s \<Rightarrow> 'a) \<Rightarrow> 's \<Rightarrow> 'a" where
  "measure_time func = func"

definition validate_isbn ::
  "string \<Rightarrow> ('s \<Rightarrow> 'a result \<times> 's) \<Rightarrow> 's \<Rightarrow> 'a result \<times> 's" where
  "validate_isbn i func self =
     (if length i < 10 then (Inl (ValueError IsbnTooShort), self) else func self)"

definition require_member ::
  "string \<Rightarrow> ('s \<Rightarrow> 'a result \<times> 's) \<Rightarrow> 's \<Rightarrow> 'a result \<times> 's" where
  "require_member mid func self =
     (if mid = [] then (Inl (ValueError MemberIdRequired), self) else func self)"

subsection \<open>\<^verbatim>\<open>library.py\<close>: the catalog\<close>

record library =
  books :: "(string \<times> book) list"
  members :: "(string \<times> member) list"

definition add_book ::
  "datetime \<Rightarrow> string \<Rightarrow> string \<Rightarrow> string \<Rightarrow> int \<Rightarrow> library \<Rightarrow> book result \<times> library" where
  "add_book now i t a y =
     log_operation (validate_isbn i (\<lambda>self.
       if i \<in> set (map fst (books self)) then (Inl (ValueError (BookExists i)), self)
       else case Book now i t a y True None None of
              Inl e \<Rightarrow> (Inl e, self)
            | Inr book \<Rightarrow> (Inr book, self\<lparr>books := AList.update i book (books self)\<rparr>)))"

definition get_book :: "string \<Rightarrow> library \<Rightarrow> book result \<times> library" where
  "get_book i =
     validate_isbn i (\<lambda>self.
       case map_of (books self) i of
         None \<Rightarrow> (Inl (BookNotFoundError i), self)
       | Some book \<Rightarrow> (Inr book, self))"

definition add_member ::
  "string \<Rightarrow> string \<Rightarrow> string \<Rightarrow> library \<Rightarrow> member result \<times> library" where
  "add_member mid nm em =
     log_operation (\<lambda>self.
       if mid \<in> set (map fst (members self)) then (Inl (ValueError (MemberExists mid)), self)
       else case Member mid nm em [] 3 of
              Inl e \<Rightarrow> (Inl e, self)
            | Inr m \<Rightarrow> (Inr m, self\<lparr>members := AList.update mid m (members self)\<rparr>))"

definition get_member :: "string \<Rightarrow> library \<Rightarrow> member result \<times> library" where
  "get_member mid self =
     (case map_of (members self) mid of
        None \<Rightarrow> (Inl (MemberNotFoundError mid), self)
      | Some m \<Rightarrow> (Inr m, self))"

text \<open>
  \<^verbatim>\<open>book\<close> and \<^verbatim>\<open>member\<close> are the objects held by the two dicts: a mutation of either is a
  store under its key.
\<close>

definition borrow_book ::
  "datetime \<Rightarrow> string \<Rightarrow> string \<Rightarrow> int \<Rightarrow> library \<Rightarrow> unit result \<times> library" where
  "borrow_book now i mid days =
     log_operation (validate_isbn i (require_member mid (\<lambda>self.
       case get_book i self of
         (Inl e, self) \<Rightarrow> (Inl e, self)
       | (Inr book, self) \<Rightarrow>
          (case get_member mid self of
             (Inl e, self) \<Rightarrow> (Inl e, self)
           | (Inr m, self) \<Rightarrow>
              (if \<not> available book then (Inl (BookNotAvailableError i), self)
               else if \<not> can_borrow m
                 then (Inl (BorrowLimitExceededError mid (max_books m)), self)
               else
                 (case Book_borrow now mid days book of
                    (Inl e, book) \<Rightarrow>
                      (Inl e, self\<lparr>books := AList.update i book (books self)\<rparr>)
                  | (Inr _, book) \<Rightarrow>
                      (Inr (),
                       self\<lparr>books := AList.update i book (books self),
                            members :=
                              AList.update mid (add_borrowed_book i m) (members self)\<rparr>)))))))"

definition return_book :: "string \<Rightarrow> string \<Rightarrow> library \<Rightarrow> unit result \<times> library" where
  "return_book i mid =
     log_operation (validate_isbn i (require_member mid (\<lambda>self.
       case get_book i self of
         (Inl e, self) \<Rightarrow> (Inl e, self)
       | (Inr book, self) \<Rightarrow>
          (case get_member mid self of
             (Inl e, self) \<Rightarrow> (Inl e, self)
           | (Inr m, self) \<Rightarrow>
              (if borrowed_by book \<noteq> Some mid
                 then (Inl (ValueError (NotBorrowedBy i mid)), self)
               else
                 (case Book_return_book book of
                    (Inl e, book) \<Rightarrow>
                      (Inl e, self\<lparr>books := AList.update i book (books self)\<rparr>)
                  | (Inr _, book) \<Rightarrow>
                      (Inr (),
                       self\<lparr>books := AList.update i book (books self),
                            members :=
                              AList.update mid (remove_borrowed_book i m) (members self)\<rparr>)))))))"

paragraph \<open>Search\<close>





definition get_available_books :: "library \<Rightarrow> book list" where
  "get_available_books self = filter available (map snd (books self))"

definition get_borrowed_books :: "library \<Rightarrow> book list" where
  "get_borrowed_books self = filter (\<lambda>book. \<not> available book) (map snd (books self))"

subsection \<open>\<^verbatim>\<open>library.py\<close>: persistence\<close>

text \<open>
  The two store files: \<open>None\<close> is a file that does not exist, \<open>Some s\<close> a file of content
  \<open>s\<close>, of size \<open>length s\<close>. \<^verbatim>\<open>json.dump\<close> and \<^verbatim>\<open>json.load\<close> belong to the standard library
  and are arguments: \<open>json_load\<close> answers a text with the value it denotes or with the
  \<^verbatim>\<open>JSONDecodeError\<close> it raises. Opening and writing a file are taken to succeed.
\<close>

record storage =
  books_file :: "string option"
  members_file :: "string option"

definition nonempty_file :: "string option \<Rightarrow> bool" where
  \<comment> \<open>\<^verbatim>\<open>file.exists() and file.stat().st_size > 0\<close>\<close>
  "nonempty_file f = (case f of None \<Rightarrow> False | Some s \<Rightarrow> length s > 0)"

fun dict_comprehension ::
  "(pyval \<Rightarrow> (string \<times> 'a) result) \<Rightarrow> pyval list \<Rightarrow> (string \<times> 'a) list
     \<Rightarrow> (string \<times> 'a) list result" where
  \<comment> \<open>\<^verbatim>\<open>{key(data): value(data) for data in items}\<close>, stopping at the first raise\<close>
  "dict_comprehension f [] acc = Inr acc"
| "dict_comprehension f (data # items) acc =
     bind_result (f data) (\<lambda>(k, v). dict_comprehension f items (AList.update k v acc))"

definition book_entry :: "datetime \<Rightarrow> pyval \<Rightarrow> (string \<times> book) result" where
  \<comment> \<open>\<^verbatim>\<open>data["isbn"]: Book.from_dict(data)\<close>, the key first\<close>
  "book_entry now data =
     bind_result (as_dict ''books.json'' data) (\<lambda>d.
     bind_result (getitem d ''isbn'') (\<lambda>vk.
     bind_result (Book_from_dict now d) (\<lambda>book.
     bind_result (as_str ''isbn'' vk) (\<lambda>k. Inr (k, book)))))"

definition member_entry :: "pyval \<Rightarrow> (string \<times> member) result" where
  "member_entry data =
     bind_result (as_dict ''members.json'' data) (\<lambda>d.
     bind_result (getitem d ''member_id'') (\<lambda>vk.
     bind_result (Member_from_dict d) (\<lambda>m.
     bind_result (as_str ''member_id'' vk) (\<lambda>k. Inr (k, m)))))"

definition load_books ::
  "(string \<Rightarrow> pyval result) \<Rightarrow> datetime \<Rightarrow> storage \<Rightarrow> library \<Rightarrow> unit result \<times> library" where
  \<comment> \<open>the first \<^verbatim>\<open>if\<close> of \<^verbatim>\<open>_load_data\<close>\<close>
  "load_books json_load now fs self =
     (if nonempty_file (books_file fs)
      then case bind_result (json_load (the (books_file fs))) (\<lambda>books_data.
                bind_result (iterate ''books.json'' books_data) (\<lambda>items.
                dict_comprehension (book_entry now) items [])) of
             Inl e \<Rightarrow> (Inl e, self)
           | Inr bs \<Rightarrow> (Inr (), self\<lparr>books := bs\<rparr>)
      else (Inr (), self\<lparr>books := []\<rparr>))"

definition load_members ::
  "(string \<Rightarrow> pyval result) \<Rightarrow> storage \<Rightarrow> library \<Rightarrow> unit result \<times> library" where
  \<comment> \<open>the second \<^verbatim>\<open>if\<close> of \<^verbatim>\<open>_load_data\<close>\<close>
  "load_members json_load fs self =
     (if nonempty_file (members_file fs)
      then case bind_result (json_load (the (members_file fs))) (\<lambda>members_data.
                bind_result (iterate ''members.json'' members_data) (\<lambda>items.
                dict_comprehension member_entry items [])) of
             Inl e \<Rightarrow> (Inl e, self)
           | Inr ms \<Rightarrow> (Inr (), self\<lparr>members := ms\<rparr>)
      else (Inr (), self\<lparr>members := []\<rparr>))"

fun caught_by_load :: "error \<Rightarrow> bool" where
  \<comment> \<open>\<^verbatim>\<open>except (json.JSONDecodeError, KeyError, ValueError)\<close>\<close>
  "caught_by_load (JSONDecodeError _) = True"
| "caught_by_load (KeyError _) = True"
| "caught_by_load (ValueError _) = True"
| "caught_by_load _ = False"

definition load_data ::
  "(string \<Rightarrow> pyval result) \<Rightarrow> datetime \<Rightarrow> storage \<Rightarrow> library \<Rightarrow> unit result \<times> library" where
  "load_data json_load now fs self =
     (let try_block =
            (case load_books json_load now fs self of
               (Inl e, self) \<Rightarrow> (Inl e, self)
             | (Inr _, self) \<Rightarrow> load_members json_load fs self)
      in case try_block of
           (Inl e, self) \<Rightarrow>
             (if caught_by_load e then (Inl (InvalidDataError e), self) else (Inl e, self))
         | (Inr _, self) \<Rightarrow> (Inr (), self))"

definition Library ::
  "(string \<Rightarrow> pyval result) \<Rightarrow> datetime \<Rightarrow> storage \<Rightarrow> unit result \<times> library" where
  \<comment> \<open>\<^verbatim>\<open>Library(data_dir)\<close>: two empty dicts, then \<^verbatim>\<open>_load_data\<close>\<close>
  "Library json_load now fs = load_data json_load now fs \<lparr>books = [], members = []\<rparr>"

definition save :: "(pyval \<Rightarrow> string) \<Rightarrow> library \<Rightarrow> storage \<Rightarrow> storage" where
  "save json_dump self =
     measure_time (\<lambda>fs.
       let fs = fs\<lparr>books_file :=
                    Some (json_dump (VList (map (\<lambda>book. VDict (Book_to_dict book))
                                              (map snd (books self)))))\<rparr>;
           fs = fs\<lparr>members_file :=
                    Some (json_dump (VList (map (\<lambda>m. VDict (Member_to_dict m))
                                              (map snd (members self)))))\<rparr>
       in fs)"

subsection \<open>\<^verbatim>\<open>library.py\<close>: transaction\<close>

text \<open>
  The body of the \<^verbatim>\<open>with\<close> statement is any function of the catalog and the store files
  that returns an outcome with both. The entities are values, so \<^verbatim>\<open>copy.deepcopy\<close> of a
  dict is the dict: the backup is independent of every later store into the live dicts.
  \<^verbatim>\<open>except Exception\<close> catches every error of the model.
\<close>

definition deepcopy :: "'a \<Rightarrow> 'a" where
  "deepcopy x = x"

type_synonym body = "library \<times> storage \<Rightarrow> unit result \<times> library \<times> storage"

definition transaction ::
  "(pyval \<Rightarrow> string) \<Rightarrow> body \<Rightarrow> library \<times> storage \<Rightarrow> unit result \<times> library \<times> storage" where
  "transaction json_dump body = (\<lambda>(self, fs).
     let books_backup = deepcopy (books self);
         members_backup = deepcopy (members self)
     in case body (self, fs) of
          (Inr _, self, fs) \<Rightarrow> (Inr (), self, save json_dump self fs)
        | (Inl e, self, fs) \<Rightarrow>
            (Inl e, self\<lparr>books := books_backup, members := members_backup\<rparr>, fs))"

subsection \<open>Properties the specification states\<close>

definition book_invariant :: "book \<Rightarrow> bool" where
  \<comment> \<open>unavailable iff borrower and due date are both present, available iff both absent\<close>
  "book_invariant b =
     ((\<not> available b \<longleftrightarrow> borrowed_by b \<noteq> None \<and> due_date b \<noteq> None) \<and>
      (available b \<longleftrightarrow> borrowed_by b = None \<and> due_date b = None))"

inductive reachable_book :: "book \<Rightarrow> bool" where
  constructed:
    "Book now i t a y av bb dd = Inr b \<Longrightarrow> (\<forall>d. dd = Some d \<longrightarrow> valid_datetime d) \<Longrightarrow>
     reachable_book b"
| borrowed:
    "reachable_book b \<Longrightarrow> valid_datetime now \<Longrightarrow> Book_borrow now mid days b = (r, b') \<Longrightarrow>
     reachable_book b'"
| returned:
    "reachable_book b \<Longrightarrow> Book_return_book b = (r, b') \<Longrightarrow> reachable_book b'"

text \<open>
  \<open>reachable_book\<close>: a book built by the constructor from fields it accepts (a due date, if
  given, being a \<^verbatim>\<open>datetime\<close> object), then taken through any calls of \<^verbatim>\<open>borrow\<close> and
  \<^verbatim>\<open>return_book\<close>, at any times of the clock, whether they return or raise.
\<close>

definition keyed :: "library \<Rightarrow> bool" where
  \<comment> \<open>the dicts have no key twice and hold each entity under its own key\<close>
  "keyed self =
     (distinct (map fst (books self)) \<and> list_all (\<lambda>(k, b). isbn b = k) (books self) \<and>
      distinct (map fst (members self)) \<and>
      list_all (\<lambda>(k, m). member_id m = k) (members self))"

definition borrower_has :: "library \<Rightarrow> book \<Rightarrow> bool" where
  \<comment> \<open>\<open>borrowed_by\<close> names an existing member whose \<open>borrowed_books\<close> holds the book's isbn\<close>
  "borrower_has self b =
     (case borrowed_by b of
        None \<Rightarrow> False
      | Some mid \<Rightarrow>
          (case map_of (members self) mid of
             None \<Rightarrow> False
           | Some m \<Rightarrow> isbn b \<in> set (borrowed_books m)))"

definition consistent :: "library \<Rightarrow> bool" where
  "consistent self = list_all (\<lambda>(k, b). available b \<or> borrower_has self b) (books self)"







subsection \<open>The fixtures of the test suite\<close>

definition fixture_now :: datetime where
  "fixture_now = \<lparr>dt_year = 2025, dt_month = 6, dt_day = 15, dt_hour = 10, dt_minute = 30,
                   dt_second = 0, dt_microsecond = 250000\<rparr>"

definition sample_book :: book where
  "sample_book = \<lparr>isbn = ''978-0132350884'', title = ''Clean Code'',
                   author = ''Robert C. Martin'', year = 2008, available = True,
                   borrowed_by = None, due_date = None\<rparr>"

definition sample_member :: member where
  "sample_member = \<lparr>member_id = ''M001'', name = ''John Doe'', email = ''john@example.com'',
                     borrowed_books = [], max_books = 3\<rparr>"

definition member_with_books :: member where
  "member_with_books = \<lparr>member_id = ''M002'', name = ''Jane Smith'',
                         email = ''jane@example.com'',
                         borrowed_books = [''978-0735619678'', ''978-0134494166''],
                         max_books = 3\<rparr>"

definition populated_library :: library where
  "populated_library =
     \<lparr>books =
        [(''978-0132350884'', sample_book),
         (''978-0201633610'',
          \<lparr>isbn = ''978-0201633610'', title = ''Design Patterns'', author = ''Erich Gamma'',
           year = 1994, available = True, borrowed_by = None, due_date = None\<rparr>),
         (''978-0735619678'',
          \<lparr>isbn = ''978-0735619678'', title = ''Code Complete'', author = ''Steve McConnell'',
           year = 2004, available = True, borrowed_by = None, due_date = None\<rparr>),
         (''978-0134494166'',
          \<lparr>isbn = ''978-0134494166'', title = ''Effective Python'', author = ''Brett Slatkin'',
           year = 2019, available = True, borrowed_by = None, due_date = None\<rparr>),
         (''978-1491904244'',
          \<lparr>isbn = ''978-1491904244'', title = ''Fluent Python'', author = ''Luciano Ramalho'',
           year = 2015, available = True, borrowed_by = None, due_date = None\<rparr>)],
      members =
        [(''M001'', sample_member),
         (''M002'',
          \<lparr>member_id = ''M002'', name = ''Jane Smith'', email = ''jane@example.com'',
           borrowed_books = [], max_books = 3\<rparr>),
         (''M003'',
          \<lparr>member_id = ''M003'', name = ''Peter Jones'', email = ''peter@example.com'',
           borrowed_books = [], max_books = 3\<rparr>)]\<rparr>"

definition small_library :: library where
  \<comment> \<open>one book, one member\<close>
  "small_library = \<lparr>books = [(''978-0132350884'', sample_book)],
                     members = [(''M001'', sample_member)]\<rparr>"

definition no_files :: storage where
  "no_files = \<lparr>books_file = None, members_file = None\<rparr>"

definition failing_body :: body where
  \<comment> \<open>test_context_manager_failure_restores_state: add a book, then raise\<close>
  "failing_body = (\<lambda>(tx, fs).
     case add_book fixture_now ''new-isbn-123'' ''New Book'' ''New Author'' 2023 tx of
       (Inl e, tx) \<Rightarrow> (Inl e, tx, fs)
     | (Inr _, tx) \<Rightarrow> (Inl (ValueError (Text ''Something went wrong'')), tx, fs))"

definition borrowed_book :: book where
  \<comment> \<open>borrowed by M001 for ten days\<close>
  "borrowed_book =
     \<lparr>isbn = ''978-0201633610'', title = ''Design Patterns'', author = ''Erich Gamma'',
      year = 1994, available = False, borrowed_by = Some ''M001'',
      due_date = Some (fixture_now\<lparr>dt_day := 25\<rparr>)\<rparr>"

definition member_at_limit :: member where
  "member_at_limit = \<lparr>member_id = ''M003'', name = ''Peter Jones'',
                       email = ''peter@example.com'', borrowed_books = [''1'', ''2'', ''3''],
                       max_books = 3\<rparr>"

definition lending_library :: library where
  \<comment> \<open>a free book, a book lent to M001, and a member at the limit\<close>
  "lending_library =
     \<lparr>books = [(''978-0132350884'', sample_book), (''978-0201633610'', borrowed_book)],
      members = [(''M001'', sample_member\<lparr>borrowed_books := [''978-0201633610'']\<rparr>),
                 (''M003'', member_at_limit)]\<rparr>"

definition inconsistent_book :: book where
  \<comment> \<open>passes \<^verbatim>\<open>__post_init__\<close>: unavailable, no borrower, no due date\<close>
  "inconsistent_book = \<lparr>isbn = ''1234567890'', title = ''t'', author = ''a'', year = 2000,
                         available = False, borrowed_by = None, due_date = None\<rparr>"

definition fixture_json_load :: "string \<Rightarrow> pyval result" where
  \<comment> \<open>a parser that knows the empty array and rejects the text of test_raises_for_corrupted_json\<close>
  "fixture_json_load s = (if s = ''[]'' then Inr (VList []) else Inl (JSONDecodeError s))"

subsection \<open>What a commit writes, and the catalogs it can read back\<close>

definition books_document :: "library \<Rightarrow> pyval" where
  "books_document self = VList (map (\<lambda>book. VDict (Book_to_dict book)) (map snd (books self)))"

definition members_document :: "library \<Rightarrow> pyval" where
  "members_document self = VList (map (\<lambda>m. VDict (Member_to_dict m)) (map snd (members self)))"

text \<open>
  \<^verbatim>\<open>json.load\<close> reads back what \<^verbatim>\<open>json.dump\<close> wrote, and \<^verbatim>\<open>json.dump\<close> writes at least one
  character.
\<close>

definition codec_ok :: "(pyval \<Rightarrow> string) \<Rightarrow> (string \<Rightarrow> pyval result) \<Rightarrow> pyval \<Rightarrow> bool" where
  "codec_ok json_dump json_load v = (json_dump v \<noteq> [] \<and> json_load (json_dump v) = Inr v)"

text \<open>
  A catalog as the public interface builds it: every entity under its own key, passing
  the validation of its constructor at the time \<open>now\<close> of the load, every due date a
  \<^verbatim>\<open>datetime\<close> object.
\<close>

definition storable :: "datetime \<Rightarrow> library \<Rightarrow> bool" where
  "storable now self =
     (keyed self \<and>
      list_all (\<lambda>(k, b). Book_post_init now b = Inr () \<and>
                  (case due_date b of None \<Rightarrow> True | Some d \<Rightarrow> valid_datetime d)) (books self) \<and>
      list_all (\<lambda>(k, m). Member_post_init m = Inr ()) (members self))"

text \<open>A printer of JSON texts, for the fixtures.\<close>

fun decimal :: "nat \<Rightarrow> string" where
  "decimal n = (if n < 10 then [digit_char (int n)]
                else decimal (n div 10) @ [digit_char (int (n mod 10))])"

declare decimal.simps [simp del]

definition quoted :: "string \<Rightarrow> string" where
  "quoted s = [CHR 0x22] @ s @ [CHR 0x22]"

fun comma_join :: "string list \<Rightarrow> string" where
  "comma_join [] = []"
| "comma_join [x] = x"
| "comma_join (x # y # ys) = x @ '', '' @ comma_join (y # ys)"

primrec json_text :: "pyval \<Rightarrow> string" where
  "json_text VNone = ''null''"
| "json_text (VBool b) = (if b then ''true'' else ''false'')"
| "json_text (VInt n) = (if n < 0 then ''-'' @ decimal (nat (- n)) else decimal (nat n))"
| "json_text (VStr s) = quoted s"
| "json_text (VList vs) = ''['' @ comma_join (map json_text vs) @ '']''"
| "json_text (VDict kvs) =
     ''{'' @ comma_join (map (\<lambda>(k, t). quoted k @ '': '' @ t) (map (map_prod id json_text) kvs))
       @ ''}''"

definition committing_body :: body where
  "committing_body = (\<lambda>(tx, fs).
     case add_book fixture_now ''978-0134494166'' ''Effective Python'' ''Brett Slatkin'' 2019 tx of
       (Inl e, tx) \<Rightarrow> (Inl e, tx, fs)
     | (Inr _, tx) \<Rightarrow>
        (case add_book fixture_now ''978-1491904244'' ''Fluent Python'' ''Luciano Ramalho'' 2015
                tx of
           (Inl e, tx) \<Rightarrow> (Inl e, tx, fs)
         | (Inr _, tx) \<Rightarrow> (Inr (), tx, fs)))"

definition committed_library :: library where
  "committed_library =
     \<lparr>books =
        [(''978-0132350884'', sample_book),
         (''978-0134494166'',
          \<lparr>isbn = ''978-0134494166'', title = ''Effective Python'', author = ''Brett Slatkin'',
           year = 2019, available = True, borrowed_by = None, due_date = None\<rparr>),
         (''978-1491904244'',
          \<lparr>isbn = ''978-1491904244'', title = ''Fluent Python'', author = ''Luciano Ramalho'',
           year = 2015, available = True, borrowed_by = None, due_date = None\<rparr>)],
      members = [(''M001'', sample_member)]\<rparr>"

definition committed_json_load :: "string \<Rightarrow> pyval result" where
  "committed_json_load s =
     (if s = json_text (books_document committed_library)
        then Inr (books_document committed_library)
      else if s = json_text (members_document committed_library)
        then Inr (members_document committed_library)
      else Inl (JSONDecodeError s))"




section \<open>Theorems\<close>

lemmas op_defs =
  log_operation_def validate_isbn_def require_member_def get_book_def get_member_def

subsection \<open>Transaction: rollback\<close>

lemma failing_body_raises:
  "failing_body (populated_library, no_files) =
     (Inl (ValueError (Text ''Something went wrong'')),
      populated_library\<lparr>books := books populated_library @
         [(''new-isbn-123'',
           \<lparr>isbn = ''new-isbn-123'', title = ''New Book'', author = ''New Author'',
            year = 2023, available = True, borrowed_by = None, due_date = None\<rparr>)]\<rparr>,
      no_files)"
  by (simp add: failing_body_def add_book_def op_defs populated_library_def Book_def
      Book_post_init_def bind_result_def fixture_now_def sample_book_def)

text \<open>
  C1. For every catalog, every state of the store files and every body of a transaction:
  if the body raises an error, the transaction raises that same error, and the catalog's
  two dicts, books and members, are the ones the catalog held when the transaction began.
\<close>

theorem transaction_rollback:
  assumes "fst (body (self, fs)) = Inl e"
  shows "fst (transaction json_dump body (self, fs)) = Inl e \<and>
         books (fst (snd (transaction json_dump body (self, fs)))) = books self \<and>
         members (fst (snd (transaction json_dump body (self, fs)))) = members self"
  using assms
  by (cases "body (self, fs)") (auto simp: transaction_def deepcopy_def split: sum.splits)

theorem transaction_rollback_witness:
  "fst (failing_body (populated_library, no_files))
     = Inl (ValueError (Text ''Something went wrong'')) \<and>
   length (books (fst (snd (failing_body (populated_library, no_files))))) = 6 \<and>
   fst (transaction (\<lambda>v. ''[]'') failing_body (populated_library, no_files))
     = Inl (ValueError (Text ''Something went wrong'')) \<and>
   books (fst (snd (transaction (\<lambda>v. ''[]'') failing_body (populated_library, no_files))))
     = books populated_library \<and>
   members (fst (snd (transaction (\<lambda>v. ''[]'') failing_body (populated_library, no_files))))
     = members populated_library"
  using transaction_rollback [of failing_body populated_library no_files
          "ValueError (Text ''Something went wrong'')" "\<lambda>v. ''[]''"]
  by (simp add: failing_body_raises) (simp add: populated_library_def)

subsection \<open>Book: borrow, then return\<close>



subsection \<open>Calendar: a date plus days is a date\<close>

lemma month_day_valid:
  assumes "0 \<le> r" and "r \<le> 364" and "leap \<longrightarrow> is_leap y"
  shows "case month_day leap r of (m, d) \<Rightarrow>
           1 \<le> m \<and> m \<le> 12 \<and> 1 \<le> d \<and> d \<le> days_in_month y m"
proof -
  define m where "m = (r + 50) div 32"
  have lo: "32 * m \<le> r + 50" and hi: "r + 50 < 32 * m + 32"
    unfolding m_def by arith+
  have "1 \<le> m" "m \<le> 12" using lo hi assms(1,2) by arith+
  then have "m = 1 \<or> m = 2 \<or> m = 3 \<or> m = 4 \<or> m = 5 \<or> m = 6 \<or> m = 7 \<or> m = 8
    \<or> m = 9 \<or> m = 10 \<or> m = 11 \<or> m = 12" by arith
  then consider "m = 1" | "m = 2" | "m = 3" | "m = 4" | "m = 5" | "m = 6" | "m = 7" | "m = 8"
    | "m = 9" | "m = 10" | "m = 11" | "m = 12" by blast
  then show ?thesis
  proof cases
    case 1 with lo hi assms show ?thesis
      by (simp add: month_day_def m_def [symmetric] Let_def days_in_month_def)
  next
    case 2 with lo hi assms show ?thesis
      by (simp add: month_day_def m_def [symmetric] Let_def days_in_month_def)
  next
    case 3 with lo hi assms show ?thesis
      by (auto simp: month_day_def m_def [symmetric] Let_def days_in_month_def)
  next
    case 4 with lo hi assms show ?thesis
      by (auto simp: month_day_def m_def [symmetric] Let_def days_in_month_def)
  next
    case 5 with lo hi assms show ?thesis
      by (auto simp: month_day_def m_def [symmetric] Let_def days_in_month_def)
  next
    case 6 with lo hi assms show ?thesis
      by (auto simp: month_day_def m_def [symmetric] Let_def days_in_month_def)
  next
    case 7 with lo hi assms show ?thesis
      by (auto simp: month_day_def m_def [symmetric] Let_def days_in_month_def)
  next
    case 8 with lo hi assms show ?thesis
      by (auto simp: month_day_def m_def [symmetric] Let_def days_in_month_def)
  next
    case 9 with lo hi assms show ?thesis
      by (auto simp: month_day_def m_def [symmetric] Let_def days_in_month_def)
  next
    case 10 with lo hi assms show ?thesis
      by (auto simp: month_day_def m_def [symmetric] Let_def days_in_month_def)
  next
    case 11 with lo hi assms show ?thesis
      by (auto simp: month_day_def m_def [symmetric] Let_def days_in_month_def)
  next
    case 12 with lo hi assms show ?thesis
      by (auto simp: month_day_def m_def [symmetric] Let_def days_in_month_def)
  qed
qed


lemma ord2ymd_year:
  assumes "0 \<le> n0" and "n0 \<le> 3652058"
      and e1: "n0 = 146097 * q400 + r1" and b1: "0 \<le> r1" "r1 < 146097"
      and e2: "r1 = 36524 * q100 + r2" and b2: "0 \<le> r2" "r2 < 36524"
      and e3: "r2 = 1461 * q4 + r3" and b3: "0 \<le> r3" "r3 < 1461"
      and e4: "r3 = 365 * q1 + (r4::int)" and b4: "0 \<le> r4" "r4 < 365"
  shows "0 \<le> q400 \<and> 0 \<le> q100 \<and> q100 \<le> 4 \<and> 0 \<le> q4 \<and> q4 \<le> 24 \<and> 0 \<le> q1 \<and> q1 \<le> 4 \<and>
         q400 * 400 + 1 + q100 * 100 + q4 * 4 + q1 \<le> 9999"
proof -
  have q400: "0 \<le> q400" "q400 \<le> 24" using assms(1,2) e1 b1 by arith+
  have q100: "0 \<le> q100" "q100 \<le> 4" using e2 b1 b2 by arith+
  have q4: "0 \<le> q4" "q4 \<le> 24" using e3 b2 b3 by arith+
  have q1: "0 \<le> q1" "q1 \<le> 4" using e4 b3 b4 by arith+
  have "q400 * 400 + 1 + q100 * 100 + q4 * 4 + q1 \<le> 9999"
  proof (cases "q400 = 24")
    case False
    with q400 have "q400 \<le> 23" by simp
    with q100 q4 q1 show ?thesis by simp
  next
    case True
    with assms(2) e1 have r1: "r1 \<le> 145730" by simp
    with e2 b2 have q100': "q100 \<le> 3" by arith
    show ?thesis
    proof (cases "q100 = 3")
      case False
      with q100' have "q100 \<le> 2" by simp
      with True q4 q1 show ?thesis by simp
    next
      case q100_3: True
      with r1 e2 have r2: "r2 \<le> 36158" by simp
      show ?thesis
      proof (cases "q4 = 24")
        case False
        with q4 have "q4 \<le> 23" by simp
        with True q100_3 q1 show ?thesis by simp
      next
        case q4_24: True
        with r2 e3 have "r3 \<le> 1094" by simp
        with e4 b4 have "q1 \<le> 2" by arith
        with True q100_3 q4_24 show ?thesis by simp
      qed
    qed
  qed
  with q400 q100 q4 q1 show ?thesis by simp
qed

lemma leap_flag_is_leap:
  assumes "0 \<le> q400" and "0 \<le> q100" and "0 \<le> q4" and "q4 \<le> 24"
      and "q4 \<noteq> 24 \<or> q100 = 3"
  shows "is_leap (q400 * 400 + 1 + q100 * 100 + q4 * 4 + 3)"
proof -
  let ?y = "q400 * 400 + 1 + q100 * 100 + q4 * 4 + 3"
  have four: "?y mod 4 = 0" by presburger
  show ?thesis
  proof (cases "q4 = 24")
    case True
    with assms(5) have "q100 = 3" by simp
    with True have "?y = 400 * (q400 + 1)" by simp
    then have "?y mod 400 = 0" by simp
    with four show ?thesis by (simp add: is_leap_def)
  next
    case False
    with assms(3,4) have r: "4 \<le> q4 * 4 + 4" "q4 * 4 + 4 < 100" by simp_all
    have "?y = (q4 * 4 + 4) + 100 * (q400 * 4 + q100)" by simp
    then have "?y mod 100 = (q4 * 4 + 4) mod 100" by (simp only: mod_mult_self2)
    also have "\<dots> = q4 * 4 + 4" using r by simp
    finally have "?y mod 100 \<noteq> 0" using r by simp
    with four show ?thesis by (simp add: is_leap_def)
  qed
qed

lemma ord2ymd_valid:
  assumes "1 \<le> n" and "n \<le> 3652059"
  shows "case ord2ymd n of (y, m, d) \<Rightarrow>
           1 \<le> y \<and> y \<le> 9999 \<and> 1 \<le> m \<and> m \<le> 12 \<and> 1 \<le> d \<and> d \<le> days_in_month y m"
proof -
  define n0 where "n0 = n - 1"
  define q400 where "q400 = n0 div 146097"
  define r1 where "r1 = n0 mod 146097"
  define q100 where "q100 = r1 div 36524"
  define r2 where "r2 = r1 mod 36524"
  define q4 where "q4 = r2 div 1461"
  define r3 where "r3 = r2 mod 1461"
  define q1 where "q1 = r3 div 365"
  define r4 where "r4 = r3 mod 365"
  define y where "y = q400 * 400 + 1 + q100 * 100 + q4 * 4 + q1"
  define leap where "leap = (q1 = 3 \<and> (q4 \<noteq> 24 \<or> q100 = 3))"
  have n0: "0 \<le> n0" "n0 \<le> 3652058" using assms by (simp_all add: n0_def)
  have e1: "n0 = 146097 * q400 + r1" and b1: "0 \<le> r1" "r1 < 146097"
    by (simp_all add: q400_def r1_def)
  have e2: "r1 = 36524 * q100 + r2" and b2: "0 \<le> r2" "r2 < 36524"
    by (simp_all add: q100_def r2_def)
  have e3: "r2 = 1461 * q4 + r3" and b3: "0 \<le> r3" "r3 < 1461"
    by (simp_all add: q4_def r3_def)
  have e4: "r3 = 365 * q1 + r4" and b4: "0 \<le> r4" "r4 < 365"
    by (simp_all add: q1_def r4_def)
  from ord2ymd_year [OF n0 e1 b1 e2 b2 e3 b3 e4 b4]
  have q: "0 \<le> q400" "0 \<le> q100" "q100 \<le> 4" "0 \<le> q4" "q4 \<le> 24" "0 \<le> q1" "q1 \<le> 4"
    and yhi: "y \<le> 9999"
    by (simp_all add: y_def)
  have ylo: "1 \<le> y" using q by (simp add: y_def)
  have unfold: "ord2ymd n =
     (if q1 = 4 \<or> q100 = 4 then (y - 1, 12, 31)
      else case month_day leap r4 of (m, d) \<Rightarrow> (y, m, d))"
    by (simp add: ord2ymd_def Let_def n0_def q400_def r1_def q100_def r2_def q4_def r3_def
          q1_def r4_def y_def leap_def)
  show ?thesis
  proof (cases "q1 = 4 \<or> q100 = 4")
    case True
    have "2 \<le> y" using True q by (auto simp: y_def)
    with True yhi show ?thesis
      by (simp add: unfold days_in_month_def)
  next
    case False
    have "leap \<longrightarrow> is_leap y"
    proof
      assume leap
      then have "q1 = 3" and "q4 \<noteq> 24 \<or> q100 = 3" by (simp_all add: leap_def)
      with leap_flag_is_leap [OF q(1,2,4,5)] show "is_leap y" by (simp add: y_def)
    qed
    with b4 have "case month_day leap r4 of (m, d) \<Rightarrow>
            1 \<le> m \<and> m \<le> 12 \<and> 1 \<le> d \<and> d \<le> days_in_month y m"
      by (intro month_day_valid) simp_all
    with False ylo yhi show ?thesis
      by (auto simp: unfold split: prod.splits)
  qed
qed

lemma datetime_add_valid:
  assumes "valid_datetime dt" and "datetime_add dt delta = Inr due"
  shows "valid_datetime due"
proof -
  define n where "n = ymd2ord (dt_year dt) (dt_month dt) (dt_day dt) + delta"
  have range: "1 \<le> n" "n \<le> 3652059"
    using assms(2) by (auto simp: datetime_add_def Let_def n_def max_ordinal_def split: if_splits)
  obtain y m d where o: "ord2ymd n = (y, m, d)" by (cases "ord2ymd n") auto
  have due: "due = dt\<lparr>dt_year := y, dt_month := m, dt_day := d\<rparr>"
    using assms(2) range o
    by (auto simp: datetime_add_def Let_def n_def [symmetric] max_ordinal_def split: if_splits)
  from ord2ymd_valid [OF range] o
  have "1 \<le> y \<and> y \<le> 9999 \<and> 1 \<le> m \<and> m \<le> 12 \<and> 1 \<le> d \<and> d \<le> days_in_month y m" by simp
  with assms(1) show ?thesis
    by (simp add: due valid_datetime_def)
qed

lemma due_fixture_14: "bind_result (timedelta 14) (datetime_add fixture_now) = Inr (fixture_now\<lparr>dt_day := 29\<rparr>)"
  by (simp add: bind_result_def timedelta_def datetime_add_def fixture_now_def ymd2ord_def
      days_before_year_def days_before_month_def is_leap_def max_ordinal_def ord2ymd_def
      month_day_def Let_def)

lemma due_fixture_overflow: "bind_result (timedelta 10000000) (datetime_add fixture_now) = Inl (OverflowError DateOutOfRange)"
  by (simp add: bind_result_def timedelta_def datetime_add_def fixture_now_def ymd2ord_def
      days_before_year_def days_before_month_def is_leap_def max_ordinal_def Let_def)

subsection \<open>ISO timestamps\<close>

lemma length_zfill [simp]: "length (zfill k n) = k"
  by (induction k arbitrary: n) auto

lemma is_digit_digit_char: "0 \<le> n \<Longrightarrow> n < 10 \<Longrightarrow> is_digit (digit_char n)"
  by (simp add: is_digit_def digit_char_def)

lemma value_digit_char: "0 \<le> n \<Longrightarrow> n < 10 \<Longrightarrow> int (of_char (digit_char n)) - 48 = n"
  by (simp add: digit_char_def)

lemma zfill_digits: "0 \<le> n \<Longrightarrow> list_all is_digit (zfill k n)"
  by (induction k arbitrary: n) (auto simp: is_digit_digit_char)

lemma digits_value_snoc: "digits_value (s @ [c]) = digits_value s * 10 + (int (of_char c) - 48)"
  by (simp add: digits_value_def)

lemma digits_value_zfill: "0 \<le> n \<Longrightarrow> n < 10 ^ k \<Longrightarrow> digits_value (zfill k n) = n"
proof (induction k arbitrary: n)
  case 0
  then show ?case by (simp add: digits_value_def)
next
  case (Suc k)
  have "n div 10 < 10 ^ k" using Suc.prems by simp
  moreover have "0 \<le> n div 10" using Suc.prems by simp
  ultimately have "digits_value (zfill k (n div 10)) = n div 10" by (rule Suc.IH[rotated])
  then show ?case using Suc.prems
    by (simp add: digits_value_snoc value_digit_char)
qed

lemma take_number_zfill:
  "0 \<le> n \<Longrightarrow> n < 10 ^ k \<Longrightarrow> take_number k (zfill k n @ rest) = Some (n, rest)"
  by (simp add: take_number_def zfill_digits digits_value_zfill)

lemma take_char_Cons [simp]: "take_char c (c # rest) = Some rest"
  by (simp add: take_char_def)

lemma take_any_Cons [simp]: "take_any (c # rest) = Some rest"
  by (simp add: take_any_def)

lemma zfill_nonempty: "0 < k \<Longrightarrow> zfill k n \<noteq> []"
  by (cases k) auto

lemma parse_isoformat_isoformat:
  assumes "valid_datetime d"
  shows "parse_isoformat (isoformat d) = Some d"
proof -
  have y: "0 \<le> dt_year d" "dt_year d < 10 ^ 4"
   and m: "0 \<le> dt_month d" "dt_month d < 10 ^ 2"
   and dd: "0 \<le> dt_day d" "dt_day d < 10 ^ 2"
   and hh: "0 \<le> dt_hour d" "dt_hour d < 10 ^ 2"
   and mm: "0 \<le> dt_minute d" "dt_minute d < 10 ^ 2"
   and ss: "0 \<le> dt_second d" "dt_second d < 10 ^ 2"
   and us: "0 \<le> dt_microsecond d" "dt_microsecond d < 10 ^ 6"
    using assms by (auto simp: valid_datetime_def days_in_month_def split: if_splits)
  note tn = take_number_zfill [OF y] take_number_zfill [OF m] take_number_zfill [OF dd]
    take_number_zfill [OF hh] take_number_zfill [OF mm] take_number_zfill [OF ss]
    take_number_zfill [OF us]
  have last2: "take_number 2 (zfill 2 (dt_second d)) = Some (dt_second d, [])"
    using take_number_zfill [OF ss, of "[]"] by simp
  have last6: "take_number 6 (zfill 6 (dt_microsecond d)) = Some (dt_microsecond d, [])"
    using take_number_zfill [OF us, of "[]"] by simp
  show ?thesis
    by (simp add: parse_isoformat_def isoformat_def tn last2 last6)
qed

lemma fromisoformat_isoformat:
  "valid_datetime d \<Longrightarrow> fromisoformat (isoformat d) = Inr d"
  by (simp add: fromisoformat_def parse_isoformat_isoformat)

lemma isoformat_nonempty: "isoformat d \<noteq> []"
  by (simp add: isoformat_def numeral_eq_Suc)

lemma as_str_list_map_VStr: "as_str_list f (map VStr xs) = Inr xs"
  by (induction xs) (auto simp: bind_result_def as_str_def)

subsection \<open>Serialization round trip\<close>

lemma Book_roundtrip:
  assumes "Book_post_init now b = Inr ()" and "\<forall>d. due_date b = Some d \<longrightarrow> valid_datetime d"
  shows "Book_from_dict now (Book_to_dict b) = Inr b"
proof (cases b)
  case (fields i t a y av bb dd)
  with assms show ?thesis
    by (cases dd; cases bb)
       (simp_all add: Book_from_dict_def Book_to_dict_def get_default_def getitem_def as_str_def
          as_int_def as_bool_def as_opt_str_def bind_result_def Book_def Let_def
          isoformat_nonempty fromisoformat_isoformat)
qed

lemma Member_roundtrip:
  assumes "Member_post_init m = Inr ()"
  shows "Member_from_dict (Member_to_dict m) = Inr m"
proof (cases m)
  case (fields mid nm em bs mx)
  with assms show ?thesis
    by (simp add: Member_from_dict_def Member_to_dict_def get_default_def getitem_def as_str_def
        as_int_def as_list_def bind_result_def Member_def Let_def as_str_list_map_VStr)
qed

lemma Book_post_init_fields:
  "Book_post_init now b = Inr () \<longleftrightarrow>
     10 \<le> length (isbn b) \<and> title b \<noteq> [] \<and> author b \<noteq> [] \<and> 1000 \<le> year b \<and>
     year b \<le> dt_year now"
  by (auto simp: Book_post_init_def Let_def)

lemma Book_borrow_fields:
  assumes "Book_borrow now mid days b = (r, b')"
  shows "isbn b' = isbn b \<and> title b' = title b \<and> author b' = author b \<and> year b' = year b"
  using assms by (auto simp: Book_borrow_def Let_def split: if_splits sum.splits)

lemma Book_borrow_due:
  assumes "valid_datetime now" and "Book_borrow now mid days b = (r, b')"
      and "due_date b' = Some d"
  shows "due_date b = Some d \<or> valid_datetime d"
proof (cases "bind_result (timedelta days) (datetime_add now)")
  case (Inl e)
  with assms(2,3) show ?thesis
    by (auto simp: Book_borrow_def Let_def split: if_splits)
next
  case (Inr due)
  then have "datetime_add now days = Inr due"
    by (auto simp: bind_result_def timedelta_def split: if_splits)
  with assms(1) have "valid_datetime due" by (rule datetime_add_valid)
  with Inr assms(2,3) show ?thesis
    by (auto simp: Book_borrow_def Let_def split: if_splits)
qed

lemma Book_return_book_fields:
  assumes "Book_return_book b = (r, b')"
  shows "isbn b' = isbn b \<and> title b' = title b \<and> author b' = author b \<and> year b' = year b \<and>
         (due_date b' = due_date b \<or> due_date b' = None)"
  using assms by (auto simp: Book_return_book_def split: if_splits)

lemma reachable_book_valid:
  assumes "reachable_book b"
  shows "10 \<le> length (isbn b) \<and> title b \<noteq> [] \<and> author b \<noteq> [] \<and> 1000 \<le> year b \<and>
         (\<forall>d. due_date b = Some d \<longrightarrow> valid_datetime d)"
  using assms
proof (induction rule: reachable_book.induct)
  case (constructed now i t a y av bb dd b)
  then show ?case
    by (auto simp: Book_def Let_def bind_result_def Book_post_init_fields split: sum.splits)
next
  case (borrowed b now mid days r b')
  from Book_borrow_fields [OF borrowed.hyps(3)] Book_borrow_due [OF borrowed.hyps(2,3)]
    borrowed.IH
  show ?case by auto
next
  case (returned b r b')
  from Book_return_book_fields [OF returned.hyps(2)] returned.IH
  show ?case by auto
qed

lemma reachable_book_roundtrip:
  assumes "reachable_book b" and "year b \<le> dt_year now"
  shows "Book_from_dict now (Book_to_dict b) = Inr b"
proof (rule Book_roundtrip)
  show "Book_post_init now b = Inr ()"
    using reachable_book_valid [OF assms(1)] assms(2) by (simp add: Book_post_init_fields)
  show "\<forall>d. due_date b = Some d \<longrightarrow> valid_datetime d"
    using reachable_book_valid [OF assms(1)] by simp
qed

lemma fixture_now_valid: "valid_datetime fixture_now"
  by (simp add: fixture_now_def valid_datetime_def days_in_month_def)

lemma reachable_after_borrow:
  "reachable_book (sample_book\<lparr>available := False, borrowed_by := Some ''M001'',
                              due_date := Some (fixture_now\<lparr>dt_day := 29\<rparr>)\<rparr>)"
proof (rule reachable_book.borrowed)
  show "reachable_book sample_book"
  proof (rule reachable_book.constructed)
    show "Book fixture_now ''978-0132350884'' ''Clean Code'' ''Robert C. Martin'' 2008 True
            None None = Inr sample_book"
      by (simp add: Book_def Book_post_init_def bind_result_def sample_book_def fixture_now_def)
    show "\<forall>d. None = Some d \<longrightarrow> valid_datetime d" by simp
  qed
  show "valid_datetime fixture_now" by (rule fixture_now_valid)
  show "Book_borrow fixture_now ''M001'' 14 sample_book
          = (Inr (), sample_book\<lparr>available := False, borrowed_by := Some ''M001'',
                                   due_date := Some (fixture_now\<lparr>dt_day := 29\<rparr>)\<rparr>)"
    using due_fixture_14 by (simp add: Book_borrow_def sample_book_def)
qed

text \<open>
  C3. Every book that passes \<^verbatim>\<open>__post_init__\<close>, in any borrow state, its due date (if there
  is one) a \<^verbatim>\<open>datetime\<close> object, and every member that passes \<^verbatim>\<open>__post_init__\<close>, with any
  list of borrowed books: \<^verbatim>\<open>from_dict\<close> of \<^verbatim>\<open>to_dict\<close> returns an entity equal to the
  original in every field.
\<close>

theorem serialization_roundtrip:
  "(Book_post_init now b = Inr () \<and> (\<forall>d. due_date b = Some d \<longrightarrow> valid_datetime d) \<longrightarrow>
      Book_from_dict now (Book_to_dict b) = Inr b) \<and>
   (Member_post_init m = Inr () \<longrightarrow> Member_from_dict (Member_to_dict m) = Inr m)"
  using Book_roundtrip [of now b] Member_roundtrip [of m] by blast

theorem serialization_roundtrip_witness:
  "Book_post_init fixture_now borrowed_book = Inr () \<and>
   due_date borrowed_book = Some (fixture_now\<lparr>dt_day := 25\<rparr>) \<and>
   valid_datetime (fixture_now\<lparr>dt_day := 25\<rparr>) \<and>
   Book_from_dict fixture_now (Book_to_dict borrowed_book) = Inr borrowed_book \<and>
   Member_post_init member_with_books = Inr () \<and>
   Member_from_dict (Member_to_dict member_with_books) = Inr member_with_books"
  using serialization_roundtrip [of fixture_now borrowed_book member_with_books]
  by (simp add: Book_post_init_def Member_post_init_def borrowed_book_def
        member_with_books_def fixture_now_def valid_datetime_def days_in_month_def)

subsection \<open>Catalog: borrow_book\<close>

text \<open>
  C2 as stated fails: the book \<^verbatim>\<open>12345\<close> is absent from the catalog of the test suite and
  the days are positive, but \<^verbatim>\<open>validate_isbn\<close> raises \<^verbatim>\<open>ValueError\<close> before the lookup, so
  no \<^verbatim>\<open>BookNotFoundError\<close> is propagated.
\<close>

theorem borrow_book_counterexample:
  "map_of (books populated_library) ''12345'' = None \<and> (0::int) < 14 \<and>
   borrow_book fixture_now ''12345'' ''M001'' 14 populated_library
     = (Inl (ValueError IsbnTooShort), populated_library)"
  by (simp add: borrow_book_def op_defs populated_library_def)

text \<open>
  C2, amended. For every catalog, isbn, member id and number of days, \<^verbatim>\<open>borrow_book\<close>
  raises \<^verbatim>\<open>ValueError\<close> for an isbn of fewer than 10 characters and for an empty member id;
  past these checks it raises \<^verbatim>\<open>BookNotFoundError\<close> or \<^verbatim>\<open>MemberNotFoundError\<close> if the entity
  is absent (the book first), \<^verbatim>\<open>BookNotAvailableError(isbn)\<close> if the book is not available,
  \<^verbatim>\<open>BorrowLimitExceededError(member_id, max_books)\<close> if the member is at capacity, and in
  each of these cases leaves the catalog as it was; otherwise, when the due date
  \<^verbatim>\<open>now + days\<close> is a date the library can represent, it stores the book as borrowed by the
  member until that date and the member with the isbn added to the borrowed books.
\<close>

theorem borrow_book_cases:
  "(length i < 10 \<longrightarrow>
      borrow_book now i mid days self = (Inl (ValueError IsbnTooShort), self)) \<and>
   (10 \<le> length i \<and> mid = [] \<longrightarrow>
      borrow_book now i mid days self = (Inl (ValueError MemberIdRequired), self)) \<and>
   (10 \<le> length i \<and> mid \<noteq> [] \<and> map_of (books self) i = None \<longrightarrow>
      borrow_book now i mid days self = (Inl (BookNotFoundError i), self)) \<and>
   (10 \<le> length i \<and> mid \<noteq> [] \<and> map_of (books self) i = Some b \<and>
    map_of (members self) mid = None \<longrightarrow>
      borrow_book now i mid days self = (Inl (MemberNotFoundError mid), self)) \<and>
   (10 \<le> length i \<and> mid \<noteq> [] \<and> map_of (books self) i = Some b \<and>
    map_of (members self) mid = Some m \<and> \<not> available b \<longrightarrow>
      borrow_book now i mid days self = (Inl (BookNotAvailableError i), self)) \<and>
   (10 \<le> length i \<and> mid \<noteq> [] \<and> map_of (books self) i = Some b \<and>
    map_of (members self) mid = Some m \<and> available b \<and> \<not> can_borrow m \<longrightarrow>
      borrow_book now i mid days self
        = (Inl (BorrowLimitExceededError mid (max_books m)), self)) \<and>
   (10 \<le> length i \<and> mid \<noteq> [] \<and> map_of (books self) i = Some b \<and>
    map_of (members self) mid = Some m \<and> available b \<and> can_borrow m \<and>
    bind_result (timedelta days) (datetime_add now) = Inr due \<longrightarrow>
      borrow_book now i mid days self
        = (Inr (),
           self\<lparr>books := AList.update i
                    (b\<lparr>available := False, borrowed_by := Some mid, due_date := Some due\<rparr>)
                    (books self),
                members := AList.update mid (add_borrowed_book i m) (members self)\<rparr>))"
  by (auto simp: borrow_book_def op_defs Book_borrow_def Let_def split: option.splits)

theorem borrow_book_cases_witness:
  "borrow_book fixture_now ''12345'' ''M001'' 14 lending_library
     = (Inl (ValueError IsbnTooShort), lending_library) \<and>
   borrow_book fixture_now ''978-0132350884'' [] 14 lending_library
     = (Inl (ValueError MemberIdRequired), lending_library) \<and>
   borrow_book fixture_now ''000-0000000000'' ''M001'' 14 lending_library
     = (Inl (BookNotFoundError ''000-0000000000''), lending_library) \<and>
   borrow_book fixture_now ''978-0132350884'' ''M-NON-EXIST'' 14 lending_library
     = (Inl (MemberNotFoundError ''M-NON-EXIST''), lending_library) \<and>
   borrow_book fixture_now ''978-0201633610'' ''M003'' 14 lending_library
     = (Inl (BookNotAvailableError ''978-0201633610''), lending_library) \<and>
   borrow_book fixture_now ''978-0132350884'' ''M003'' 14 lending_library
     = (Inl (BorrowLimitExceededError ''M003'' 3), lending_library) \<and>
   borrow_book fixture_now ''978-0132350884'' ''M001'' 14 lending_library
     = (Inr (),
        \<lparr>books = [(''978-0132350884'',
                    sample_book\<lparr>available := False, borrowed_by := Some ''M001'',
                                due_date := Some (fixture_now\<lparr>dt_day := 29\<rparr>)\<rparr>),
                   (''978-0201633610'', borrowed_book)],
         members = [(''M001'', sample_member\<lparr>borrowed_books :=
                                  [''978-0201633610'', ''978-0132350884'']\<rparr>),
                    (''M003'', member_at_limit)]\<rparr>)"
  using borrow_book_cases [of "''12345''" fixture_now "''M001''" 14 lending_library]
        borrow_book_cases [of "''978-0132350884''" fixture_now "[]" 14 lending_library]
        borrow_book_cases [of "''000-0000000000''" fixture_now "''M001''" 14 lending_library]
        borrow_book_cases [of "''978-0132350884''" fixture_now "''M-NON-EXIST''" 14 lending_library sample_book]
        borrow_book_cases [of "''978-0201633610''" fixture_now "''M003''" 14 lending_library borrowed_book member_at_limit]
        borrow_book_cases [of "''978-0132350884''" fixture_now "''M003''" 14 lending_library sample_book member_at_limit]
        borrow_book_cases [of "''978-0132350884''" fixture_now "''M001''" 14 lending_library sample_book
           "sample_member\<lparr>borrowed_books := [''978-0201633610'']\<rparr>" "fixture_now\<lparr>dt_day := 29\<rparr>"]
        due_fixture_14
  by (simp add: lending_library_def sample_book_def sample_member_def borrowed_book_def
         member_at_limit_def can_borrow_def add_borrowed_book_def)

subsection \<open>Book: the availability invariant\<close>

text \<open>
  C4 as stated fails: the constructor and \<^verbatim>\<open>from_dict\<close> accept an unavailable book that has
  neither borrower nor due date.
\<close>

theorem book_invariant_counterexample:
  "Book fixture_now ''1234567890'' ''t'' ''a'' 2000 False None None = Inr inconsistent_book \<and>
   Book_from_dict fixture_now
     [(''isbn'', VStr ''1234567890''), (''title'', VStr ''t''), (''author'', VStr ''a''),
      (''year'', VInt 2000), (''available'', VBool False)] = Inr inconsistent_book \<and>
   \<not> book_invariant inconsistent_book"
  by (simp add: Book_def Book_post_init_def bind_result_def fixture_now_def inconsistent_book_def
        Book_from_dict_def get_default_def getitem_def as_str_def as_int_def as_bool_def
        as_opt_str_def book_invariant_def)

lemma Book_from_dict_to_dict_fields:
  assumes "Book_from_dict now (Book_to_dict b) = Inr b'"
  shows "available b' = available b \<and> borrowed_by b' = borrowed_by b \<and>
         (due_date b' = None \<longleftrightarrow> due_date b = None)"
  using assms
  by (auto simp: Book_from_dict_def Book_to_dict_def get_default_def getitem_def as_str_def
        as_int_def as_bool_def as_opt_str_def bind_result_def Book_def Let_def isoformat_nonempty
      split: sum.splits option.splits if_splits)

text \<open>
  C4, amended. A book constructed with the default borrow fields (as \<^verbatim>\<open>add_book\<close> does), a
  book after a successful \<^verbatim>\<open>borrow\<close> or \<^verbatim>\<open>return_book\<close>, and a book deserialized from the
  serialization of a book that satisfies the invariant, satisfy the invariant.
\<close>

theorem book_invariant_established:
  "(Book now i t a y True None None = Inr b \<longrightarrow> book_invariant b) \<and>
   (Book_borrow now mid days b = (Inr (), b') \<longrightarrow> book_invariant b') \<and>
   (Book_return_book b = (Inr (), b') \<longrightarrow> book_invariant b') \<and>
   (book_invariant b \<and> Book_from_dict now (Book_to_dict b) = Inr b' \<longrightarrow> book_invariant b')"
proof (intro conjI impI)
  assume "Book now i t a y True None None = Inr b"
  then show "book_invariant b"
    by (auto simp: Book_def Let_def bind_result_def book_invariant_def split: sum.splits)
next
  assume "Book_borrow now mid days b = (Inr (), b')"
  then show "book_invariant b'"
    by (auto simp: Book_borrow_def Let_def book_invariant_def split: sum.splits if_splits)
next
  assume "Book_return_book b = (Inr (), b')"
  then show "book_invariant b'"
    by (auto simp: Book_return_book_def book_invariant_def split: if_splits)
next
  assume "book_invariant b \<and> Book_from_dict now (Book_to_dict b) = Inr b'"
  then show "book_invariant b'"
    using Book_from_dict_to_dict_fields [of now b b'] by (auto simp: book_invariant_def)
qed

theorem book_invariant_established_witness:
  "Book fixture_now ''978-0132350884'' ''Clean Code'' ''Robert C. Martin'' 2008 True None None
     = Inr sample_book \<and> book_invariant sample_book \<and>
   Book_borrow fixture_now ''M001'' 14 sample_book
     = (Inr (), sample_book\<lparr>available := False, borrowed_by := Some ''M001'',
                            due_date := Some (fixture_now\<lparr>dt_day := 29\<rparr>)\<rparr>) \<and>
   book_invariant (sample_book\<lparr>available := False, borrowed_by := Some ''M001'',
                              due_date := Some (fixture_now\<lparr>dt_day := 29\<rparr>)\<rparr>) \<and>
   Book_return_book borrowed_book
     = (Inr (), borrowed_book\<lparr>available := True, borrowed_by := None, due_date := None\<rparr>) \<and>
   book_invariant (borrowed_book\<lparr>available := True, borrowed_by := None, due_date := None\<rparr>) \<and>
   book_invariant borrowed_book \<and>
   Book_from_dict fixture_now (Book_to_dict borrowed_book) = Inr borrowed_book"
  using book_invariant_established
          [of fixture_now "''978-0132350884''" "''Clean Code''" "''Robert C. Martin''" 2008
              sample_book "''M001''" 14
              "sample_book\<lparr>available := False, borrowed_by := Some ''M001'',
                            due_date := Some (fixture_now\<lparr>dt_day := 29\<rparr>)\<rparr>"]
        book_invariant_established
          [of fixture_now "''978-0201633610''" "''Design Patterns''" "''Erich Gamma''" 1994
              borrowed_book "''M001''" 14
              "borrowed_book\<lparr>available := True, borrowed_by := None, due_date := None\<rparr>"]
        book_invariant_established
          [of fixture_now "''978-0201633610''" "''Design Patterns''" "''Erich Gamma''" 1994
              borrowed_book "''M001''" 14 borrowed_book]
        due_fixture_14
        Book_roundtrip [of fixture_now borrowed_book]
  by (simp add: Book_def Book_post_init_def bind_result_def Book_borrow_def
        Book_return_book_def sample_book_def borrowed_book_def book_invariant_def
        valid_datetime_def days_in_month_def)
     (simp add: fixture_now_def)

subsection \<open>Catalog: return_book\<close>

text \<open>
  C8 as stated fails: the book is lent to M001, so \<open>borrowed_by\<close> differs from the member id
  \<^verbatim>\<open>M999\<close>, but no member \<^verbatim>\<open>M999\<close> is registered and \<^verbatim>\<open>get_member\<close> raises
  \<^verbatim>\<open>MemberNotFoundError\<close> before the comparison.
\<close>

theorem return_book_counterexample:
  "map_of (books lending_library) ''978-0201633610'' = Some borrowed_book \<and>
   borrowed_by borrowed_book \<noteq> Some ''M999'' \<and>
   return_book ''978-0201633610'' ''M999'' lending_library
     = (Inl (MemberNotFoundError ''M999''), lending_library)"
  by (simp add: return_book_def op_defs lending_library_def borrowed_book_def)

text \<open>
  C8, amended. \<^verbatim>\<open>Book.return_book\<close> on an available book raises \<^verbatim>\<open>RuntimeError\<close> and leaves
  the book as it was. For an isbn of at least 10 characters and a non-empty member id that
  are both registered in the catalog, \<^verbatim>\<open>Library.return_book\<close> raises the mismatch
  \<^verbatim>\<open>ValueError\<close> and leaves the catalog as it was whenever \<open>borrowed_by\<close> differs from the
  member id; if they agree and the book is not available, it stores the book as available
  with no borrower and no due date, and the member with the first occurrence of the isbn
  removed from the borrowed books.
\<close>

theorem return_book_cases:
  "(available b \<longrightarrow> Book_return_book b = (Inl (RuntimeError NotBorrowed), b)) \<and>
   (10 \<le> length i \<and> mid \<noteq> [] \<and> map_of (books self) i = Some b \<and>
    map_of (members self) mid = Some m \<and> borrowed_by b \<noteq> Some mid \<longrightarrow>
      return_book i mid self = (Inl (ValueError (NotBorrowedBy i mid)), self)) \<and>
   (10 \<le> length i \<and> mid \<noteq> [] \<and> map_of (books self) i = Some b \<and>
    map_of (members self) mid = Some m \<and> borrowed_by b = Some mid \<and> \<not> available b \<longrightarrow>
      return_book i mid self
        = (Inr (),
           self\<lparr>books := AList.update i
                    (b\<lparr>available := True, borrowed_by := None, due_date := None\<rparr>)
                    (books self),
                members := AList.update mid
                    (m\<lparr>borrowed_books := remove1 i (borrowed_books m)\<rparr>) (members self)\<rparr>))"
  by (auto simp: return_book_def op_defs Book_return_book_def Let_def remove_borrowed_book_def remove1_idem split: option.splits)

theorem return_book_cases_witness:
  "available sample_book \<and>
   Book_return_book sample_book = (Inl (RuntimeError NotBorrowed), sample_book) \<and>
   return_book ''978-0201633610'' ''M003'' lending_library
     = (Inl (ValueError (NotBorrowedBy ''978-0201633610'' ''M003'')), lending_library) \<and>
   return_book ''978-0201633610'' ''M001'' lending_library
     = (Inr (),
        \<lparr>books = [(''978-0132350884'', sample_book),
                   (''978-0201633610'',
                    borrowed_book\<lparr>available := True, borrowed_by := None,
                                  due_date := None\<rparr>)],
         members = [(''M001'', sample_member), (''M003'', member_at_limit)]\<rparr>)"
  using return_book_cases [of sample_book "''978-0201633610''" "''M003''" lending_library
          member_at_limit]
        return_book_cases [of borrowed_book "''978-0201633610''" "''M003''" lending_library
          member_at_limit]
        return_book_cases [of borrowed_book "''978-0201633610''" "''M001''" lending_library
          "sample_member\<lparr>borrowed_books := [''978-0201633610'']\<rparr>"]
  by (simp add: lending_library_def sample_book_def sample_member_def borrowed_book_def
        member_at_limit_def)

subsection \<open>Catalog: the borrower of every lent book holds it\<close>

lemma list_all_map_of:
  "distinct (map fst al) \<Longrightarrow> list_all P al = (\<forall>k v. map_of al k = Some v \<longrightarrow> P (k, v))"
  by (auto simp: list_all_iff)

lemma keyed_books_isbn: "keyed self \<Longrightarrow> map_of (books self) k = Some b \<Longrightarrow> isbn b = k"
  by (auto simp: keyed_def list_all_iff dest: map_of_SomeD)

lemma borrow_book_outcomes:
  "borrow_book now i mid days self = (fst (borrow_book now i mid days self), self) \<or>
   (\<exists>b m. map_of (books self) i = Some b \<and> map_of (members self) mid = Some m \<and>
      ((\<exists>due. borrow_book now i mid days self
          = (Inr (),
             self\<lparr>books := AList.update i
                      (b\<lparr>available := False, borrowed_by := Some mid, due_date := Some due\<rparr>)
                      (books self),
                  members := AList.update mid (add_borrowed_book i m) (members self)\<rparr>)) \<or>
       (\<exists>msg. borrow_book now i mid days self
          = (Inl (OverflowError msg),
             self\<lparr>books := AList.update i (b\<lparr>available := False, borrowed_by := Some mid\<rparr>)
                      (books self)\<rparr>))))"
  by (auto simp: borrow_book_def op_defs Book_borrow_def Let_def bind_result_def timedelta_def
        datetime_add_def split: option.splits sum.splits prod.splits)

lemma return_book_outcomes:
  "return_book i mid self = (fst (return_book i mid self), self) \<or>
   (\<exists>b m. map_of (books self) i = Some b \<and> map_of (members self) mid = Some m \<and>
      return_book i mid self
        = (Inr (),
           self\<lparr>books := AList.update i
                    (b\<lparr>available := True, borrowed_by := None, due_date := None\<rparr>)
                    (books self),
                members := AList.update mid (remove_borrowed_book i m) (members self)\<rparr>))"
  by (auto simp: return_book_def op_defs Book_return_book_def Let_def AList.update_triv
      split: option.splits)

lemma keyed_update_book:
  assumes "keyed self" and "isbn b' = i"
  shows "keyed (self\<lparr>books := AList.update i b' (books self)\<rparr>)"
  using assms
  by (auto simp: keyed_def distinct_update list_all_map_of update_conv')

lemma keyed_update_both:
  assumes "keyed self" and "isbn b' = i" and "member_id m' = mid"
  shows "keyed (self\<lparr>books := AList.update i b' (books self),
                      members := AList.update mid m' (members self)\<rparr>)"
  using assms
  by (auto simp: keyed_def distinct_update list_all_map_of update_conv')

lemma consistent_iff:
  "keyed self \<Longrightarrow>
   consistent self = (\<forall>k b. map_of (books self) k = Some b \<longrightarrow> available b \<or> borrower_has self b)"
  by (simp add: consistent_def keyed_def list_all_map_of)

lemma borrower_has_update_member:
  assumes "borrower_has self bk" and "map_of (members self) mid = Some m"
      and "isbn bk \<in> set (borrowed_books m) \<Longrightarrow> isbn bk \<in> set (borrowed_books m')"
  shows "borrower_has (self\<lparr>books := bs, members := AList.update mid m' (members self)\<rparr>) bk"
  using assms
  by (auto simp: borrower_has_def update_conv' split: option.splits)

lemma consistent_after_borrow:
  assumes k: "keyed self" and c: "consistent self"
      and b: "map_of (books self) i = Some b" and m: "map_of (members self) mid = Some m"
  shows "consistent (self\<lparr>books := AList.update i
                      (b\<lparr>available := False, borrowed_by := Some mid, due_date := Some due\<rparr>)
                      (books self),
                  members := AList.update mid (add_borrowed_book i m) (members self)\<rparr>)"
    (is "consistent ?s")
proof -
  have i: "isbn b = i" using k b by (rule keyed_books_isbn)
  have mm: "member_id m = mid" using k m
    by (auto simp: keyed_def list_all_iff dest: map_of_SomeD)
  have k': "keyed ?s"
    by (rule keyed_update_both, rule k) (simp_all add: i mm add_borrowed_book_def)
  show ?thesis
    unfolding consistent_iff [OF k']
  proof (intro allI impI)
    fix k2 b2
    assume new: "map_of (books ?s) k2 = Some b2"
    show "available b2 \<or> borrower_has ?s b2"
    proof (cases "k2 = i")
      case True
      with new have "b2 = b\<lparr>available := False, borrowed_by := Some mid, due_date := Some due\<rparr>"
        by (simp add: update_conv')
      then show ?thesis
        by (simp add: borrower_has_def update_conv' add_borrowed_book_def i)
    next
      case False
      with new have old: "map_of (books self) k2 = Some b2"
        by (simp add: update_conv')
      with c have "available b2 \<or> borrower_has self b2"
        unfolding consistent_iff [OF k] by blast
      then show ?thesis
      proof
        assume "available b2"
        then show ?thesis ..
      next
        assume "borrower_has self b2"
        then have "borrower_has ?s b2" using m
          by (rule borrower_has_update_member) (simp add: add_borrowed_book_def)
        then show ?thesis ..
      qed
    qed
  qed
qed

lemma consistent_after_return:
  assumes k: "keyed self" and c: "consistent self"
      and b: "map_of (books self) i = Some b" and m: "map_of (members self) mid = Some m"
  shows "consistent (self\<lparr>books := AList.update i
                      (b\<lparr>available := True, borrowed_by := None, due_date := None\<rparr>)
                      (books self),
                  members := AList.update mid (remove_borrowed_book i m) (members self)\<rparr>)"
    (is "consistent ?s")
proof -
  have i: "isbn b = i" using k b by (rule keyed_books_isbn)
  have mm: "member_id m = mid" using k m
    by (auto simp: keyed_def list_all_iff dest: map_of_SomeD)
  have k': "keyed ?s"
    by (rule keyed_update_both, rule k) (simp_all add: i mm remove_borrowed_book_def)
  show ?thesis
    unfolding consistent_iff [OF k']
  proof (intro allI impI)
    fix k2 b2
    assume new: "map_of (books ?s) k2 = Some b2"
    show "available b2 \<or> borrower_has ?s b2"
    proof (cases "k2 = i")
      case True
      with new have "b2 = b\<lparr>available := True, borrowed_by := None, due_date := None\<rparr>"
        by (simp add: update_conv')
      then show ?thesis by simp
    next
      case False
      with new have old: "map_of (books self) k2 = Some b2"
        by (simp add: update_conv')
      have other: "isbn b2 \<noteq> i"
        using keyed_books_isbn [OF k old] False by simp
      from old c have "available b2 \<or> borrower_has self b2"
        unfolding consistent_iff [OF k] by blast
      then show ?thesis
      proof
        assume "available b2"
        then show ?thesis ..
      next
        assume "borrower_has self b2"
        then have "borrower_has ?s b2" using m
          by (rule borrower_has_update_member) (simp add: remove_borrowed_book_def other)
        then show ?thesis ..
      qed
    qed
  qed
qed

lemma return_book_preserves:
  assumes "keyed self" and "consistent self"
  shows "keyed (snd (return_book i mid self)) \<and> consistent (snd (return_book i mid self))"
proof -
  from return_book_outcomes [of i mid self]
  consider (same) "snd (return_book i mid self) = self"
    | (ok) b m where "map_of (books self) i = Some b" "map_of (members self) mid = Some m"
        "snd (return_book i mid self) =
           self\<lparr>books := AList.update i
                    (b\<lparr>available := True, borrowed_by := None, due_date := None\<rparr>)
                    (books self),
                members := AList.update mid (remove_borrowed_book i m) (members self)\<rparr>"
    by (metis snd_conv)
  then show ?thesis
  proof cases
    case same
    with assms show ?thesis by simp
  next
    case ok
    have i: "isbn b = i" using assms(1) ok(1) by (rule keyed_books_isbn)
    have mm: "member_id m = mid" using assms(1) ok(2)
      by (auto simp: keyed_def list_all_iff dest: map_of_SomeD)
    have "keyed (snd (return_book i mid self))"
      unfolding ok(3)
      by (rule keyed_update_both, rule assms(1))
         (simp_all add: i mm remove_borrowed_book_def)
    moreover have "consistent (snd (return_book i mid self))"
      unfolding ok(3) using assms ok(1,2) by (rule consistent_after_return)
    ultimately show ?thesis by simp
  qed
qed

lemma borrow_book_preserves:
  assumes "keyed self" and "consistent self"
      and "\<forall>msg. fst (borrow_book now i mid days self) \<noteq> Inl (OverflowError msg)"
  shows "keyed (snd (borrow_book now i mid days self)) \<and>
         consistent (snd (borrow_book now i mid days self))"
proof -
  from borrow_book_outcomes [of now i mid days self] assms(3)
  consider (same) "snd (borrow_book now i mid days self) = self"
    | (ok) b m due where "map_of (books self) i = Some b" "map_of (members self) mid = Some m"
        "snd (borrow_book now i mid days self) =
           self\<lparr>books := AList.update i
                      (b\<lparr>available := False, borrowed_by := Some mid, due_date := Some due\<rparr>)
                      (books self),
                  members := AList.update mid (add_borrowed_book i m) (members self)\<rparr>"
    by (metis fst_conv snd_conv)
  then show ?thesis
  proof cases
    case same
    with assms show ?thesis by simp
  next
    case ok
    have i: "isbn b = i" using assms(1) ok(1) by (rule keyed_books_isbn)
    have mm: "member_id m = mid" using assms(1) ok(2)
      by (auto simp: keyed_def list_all_iff dest: map_of_SomeD)
    have "keyed (snd (borrow_book now i mid days self))"
      unfolding ok(3)
      by (rule keyed_update_both, rule assms(1))
         (simp_all add: i mm add_borrowed_book_def)
    moreover have "consistent (snd (borrow_book now i mid days self))"
      unfolding ok(3) using assms(1,2) ok(1,2) by (rule consistent_after_borrow)
    ultimately show ?thesis by simp
  qed
qed

text \<open>
  C10 fails on the code. The catalog of one free book and one member satisfies the
  property; \<^verbatim>\<open>borrow_book\<close> with ten million days raises \<^verbatim>\<open>OverflowError\<close> in \<^verbatim>\<open>Book.borrow\<close>
  after the book has been stored as lent to M001, whose borrowed books do not hold the isbn.
\<close>

theorem borrow_book_overflow:
  "consistent small_library \<and> (0::int) < 10000000 \<and>
   borrow_book fixture_now ''978-0132350884'' ''M001'' 10000000 small_library
     = (Inl (OverflowError DateOutOfRange),
        small_library\<lparr>books := [(''978-0132350884'',
           sample_book\<lparr>available := False, borrowed_by := Some ''M001''\<rparr>)]\<rparr>) \<and>
   \<not> consistent (snd (borrow_book fixture_now ''978-0132350884'' ''M001'' 10000000 small_library))"
  using due_fixture_overflow
  by (simp add: borrow_book_def op_defs Book_borrow_def small_library_def sample_book_def sample_member_def
       consistent_def borrower_has_def can_borrow_def)

subsection \<open>Catalog: search\<close>
















subsection \<open>Persistence: load\<close>

lemma load_both_absent:
  assumes "books_file fs = None \<or> books_file fs = Some []"
      and "members_file fs = None \<or> members_file fs = Some []"
  shows "load_data json_load now fs self = (Inr (), self\<lparr>books := [], members := []\<rparr>)"
  using assms
  by (auto simp: load_data_def load_books_def load_members_def nonempty_file_def)

lemma load_books_absent:
  assumes "books_file fs = None \<or> books_file fs = Some []"
      and "load_members json_load fs (self\<lparr>books := []\<rparr>) = (Inr (), loaded)"
  shows "load_data json_load now fs self = (Inr (), loaded) \<and> books loaded = []"
proof -
  have b: "load_books json_load now fs self = (Inr (), self\<lparr>books := []\<rparr>)"
    using assms(1) by (auto simp: load_books_def nonempty_file_def)
  have "books loaded = []"
    using assms(2)
    by (auto simp: load_members_def split: if_splits sum.splits)
  then show ?thesis
    using assms(2) by (simp add: load_data_def b)
qed

lemma load_members_absent:
  assumes "members_file fs = None \<or> members_file fs = Some []"
      and "load_books json_load now fs self = (Inr (), loaded)"
  shows "load_data json_load now fs self = (Inr (), loaded\<lparr>members := []\<rparr>)"
proof -
  have "load_members json_load fs loaded = (Inr (), loaded\<lparr>members := []\<rparr>)"
    using assms(1) by (auto simp: load_members_def nonempty_file_def)
  then show ?thesis
    using assms(2) by (simp add: load_data_def)
qed

lemma load_books_malformed:
  assumes "books_file fs = Some s" and "s \<noteq> []" and "json_load s = Inl (JSONDecodeError msg)"
  shows "load_data json_load now fs self = (Inl (InvalidDataError (JSONDecodeError msg)), self)"
proof -
  have "load_books json_load now fs self = (Inl (JSONDecodeError msg), self)"
    using assms by (simp add: load_books_def nonempty_file_def bind_result_def)
  then show ?thesis
    by (simp add: load_data_def)
qed

lemma load_members_malformed:
  assumes "load_books json_load now fs self = (Inr (), loaded)"
      and "members_file fs = Some s" and "s \<noteq> []" and "json_load s = Inl (JSONDecodeError msg)"
  shows "load_data json_load now fs self
           = (Inl (InvalidDataError (JSONDecodeError msg)), loaded)"
proof -
  have "load_members json_load fs loaded = (Inl (JSONDecodeError msg), loaded)"
    using assms(2-4) by (simp add: load_members_def nonempty_file_def bind_result_def)
  then show ?thesis
    using assms(1) by (simp add: load_data_def)
qed

text \<open>
  C6. A store file that is missing or has no content makes its collection empty and raises
  nothing: with both files so, \<^verbatim>\<open>_load_data\<close> succeeds with two empty dicts; with one file
  so, the outcome is that of loading the other. A store file whose content
  \<^verbatim>\<open>json.load\<close> rejects with a \<^verbatim>\<open>JSONDecodeError\<close> makes \<^verbatim>\<open>_load_data\<close> raise
  \<^verbatim>\<open>InvalidDataError\<close> formatted from that error; the members file is read once the books
  file has been loaded.
\<close>

theorem load_data_missing_or_malformed:
  "((books_file fs = None \<or> books_file fs = Some []) \<and>
    (members_file fs = None \<or> members_file fs = Some []) \<longrightarrow>
      load_data json_load now fs self = (Inr (), self\<lparr>books := [], members := []\<rparr>)) \<and>
   ((books_file fs = None \<or> books_file fs = Some []) \<and>
    load_members json_load fs (self\<lparr>books := []\<rparr>) = (Inr (), loaded) \<longrightarrow>
      load_data json_load now fs self = (Inr (), loaded) \<and> books loaded = []) \<and>
   ((members_file fs = None \<or> members_file fs = Some []) \<and>
    load_books json_load now fs self = (Inr (), loaded) \<longrightarrow>
      load_data json_load now fs self = (Inr (), loaded\<lparr>members := []\<rparr>)) \<and>
   (books_file fs = Some s \<and> s \<noteq> [] \<and> json_load s = Inl (JSONDecodeError msg) \<longrightarrow>
      load_data json_load now fs self = (Inl (InvalidDataError (JSONDecodeError msg)), self)) \<and>
   (load_books json_load now fs self = (Inr (), loaded) \<and>
    members_file fs = Some s \<and> s \<noteq> [] \<and> json_load s = Inl (JSONDecodeError msg) \<longrightarrow>
      load_data json_load now fs self
        = (Inl (InvalidDataError (JSONDecodeError msg)), loaded))"
  using load_both_absent [of fs json_load now self]
        load_books_absent [of fs json_load self loaded now]
        load_members_absent [of fs json_load now self loaded]
        load_books_malformed [of fs s json_load msg now self]
        load_members_malformed [of json_load now fs self loaded s msg]
  by blast

theorem load_data_missing_or_malformed_witness:
  "load_data fixture_json_load fixture_now \<lparr>books_file = None, members_file = Some []\<rparr>
     small_library = (Inr (), \<lparr>books = [], members = []\<rparr>) \<and>
   load_data fixture_json_load fixture_now \<lparr>books_file = Some [], members_file = Some ''[]''\<rparr>
     small_library = (Inr (), \<lparr>books = [], members = []\<rparr>) \<and>
   load_data fixture_json_load fixture_now \<lparr>books_file = Some ''[]'', members_file = None\<rparr>
     small_library = (Inr (), \<lparr>books = [], members = []\<rparr>) \<and>
   load_data fixture_json_load fixture_now
     \<lparr>books_file = Some ''this is not json'', members_file = None\<rparr> small_library
     = (Inl (InvalidDataError (JSONDecodeError ''this is not json'')), small_library) \<and>
   load_data fixture_json_load fixture_now
     \<lparr>books_file = None, members_file = Some ''this is not json''\<rparr> small_library
     = (Inl (InvalidDataError (JSONDecodeError ''this is not json'')),
        small_library\<lparr>books := []\<rparr>)"
  using load_data_missing_or_malformed
          [where fs = "\<lparr>books_file = None, members_file = Some []\<rparr>"
             and json_load = fixture_json_load and now = fixture_now and self = small_library]
        load_data_missing_or_malformed
          [where fs = "\<lparr>books_file = Some [], members_file = Some ''[]''\<rparr>"
             and json_load = fixture_json_load and now = fixture_now and self = small_library
             and loaded = "\<lparr>books = [], members = []\<rparr>"]
        load_data_missing_or_malformed
          [where fs = "\<lparr>books_file = Some ''[]'', members_file = None\<rparr>"
             and json_load = fixture_json_load and now = fixture_now and self = small_library
             and loaded = "small_library\<lparr>books := []\<rparr>"]
        load_data_missing_or_malformed
          [where fs = "\<lparr>books_file = Some ''this is not json'', members_file = None\<rparr>"
             and json_load = fixture_json_load and now = fixture_now and self = small_library
             and s = "''this is not json''" and msg = "''this is not json''"]
        load_data_missing_or_malformed
          [where fs = "\<lparr>books_file = None, members_file = Some ''this is not json''\<rparr>"
             and json_load = fixture_json_load and now = fixture_now and self = small_library
             and loaded = "small_library\<lparr>books := []\<rparr>"
             and s = "''this is not json''" and msg = "''this is not json''"]
  by (simp add: load_books_def load_members_def nonempty_file_def fixture_json_load_def
        bind_result_def iterate_def small_library_def)

subsection \<open>The catalogs the public interface builds can be stored\<close>

lemma list_all_update:
  "list_all P al \<Longrightarrow> P (k, v) \<Longrightarrow> list_all P (AList.update k v al)"
  by (induction al) auto

lemma storable_book_update:
  assumes "storable now self" and "isbn b' = i" and "Book_post_init now b' = Inr ()"
      and "\<forall>d. due_date b' = Some d \<longrightarrow> valid_datetime d"
  shows "storable now (self\<lparr>books := AList.update i b' (books self)\<rparr>)"
proof -
  have "keyed (self\<lparr>books := AList.update i b' (books self)\<rparr>)"
    using assms(1,2) by (intro keyed_update_book) (simp_all add: storable_def)
  moreover have "list_all (\<lambda>(k, b). Book_post_init now b = Inr () \<and>
                  (case due_date b of None \<Rightarrow> True | Some d \<Rightarrow> valid_datetime d))
                  (AList.update i b' (books self))"
    using assms by (intro list_all_update) (auto simp: storable_def split: option.splits)
  ultimately show ?thesis using assms(1) by (simp add: storable_def)
qed

lemma storable_member_update:
  assumes "storable now self" and "member_id m' = mid" and "Member_post_init m' = Inr ()"
  shows "storable now (self\<lparr>members := AList.update mid m' (members self)\<rparr>)"
proof -
  have "keyed (self\<lparr>members := AList.update mid m' (members self)\<rparr>)"
    using assms(1,2)
    by (auto simp: storable_def keyed_def distinct_update list_all_map_of update_conv')
  moreover have "list_all (\<lambda>(k, m). Member_post_init m = Inr ())
                  (AList.update mid m' (members self))"
    using assms by (intro list_all_update) (auto simp: storable_def)
  ultimately show ?thesis using assms(1) by (simp add: storable_def)
qed

lemma storable_lookup_book:
  assumes "storable now self" and "map_of (books self) i = Some b"
  shows "isbn b = i \<and> Book_post_init now b = Inr () \<and>
         (\<forall>d. due_date b = Some d \<longrightarrow> valid_datetime d)"
  using assms
  by (auto simp: storable_def keyed_def list_all_iff dest!: map_of_SomeD)

lemma storable_lookup_member:
  assumes "storable now self" and "map_of (members self) mid = Some m"
  shows "member_id m = mid \<and> Member_post_init m = Inr ()"
  using assms
  by (auto simp: storable_def keyed_def list_all_iff dest!: map_of_SomeD)

lemma storable_empty: "storable now \<lparr>books = [], members = []\<rparr>"
  by (simp add: storable_def keyed_def)

lemma add_book_storable:
  assumes "storable now self" and "dt_year now0 \<le> dt_year now"
  shows "storable now (snd (add_book now0 i t a y self))"
proof (cases "Book now0 i t a y True None None")
  case (Inl e)
  with assms(1) show ?thesis
    by (simp add: add_book_def log_operation_def validate_isbn_def)
next
  case (Inr book)
  then have f: "isbn book = i" "due_date book = None" "Book_post_init now0 book = Inr ()"
    by (auto simp: Book_def Let_def bind_result_def split: sum.splits)
  then have "Book_post_init now book = Inr ()"
    using assms(2) by (simp add: Book_post_init_fields)
  with assms(1) f have "storable now (self\<lparr>books := AList.update i book (books self)\<rparr>)"
    by (intro storable_book_update) simp_all
  with Inr assms(1) show ?thesis
    by (simp add: add_book_def log_operation_def validate_isbn_def)
qed

lemma add_member_storable:
  assumes "storable now self"
  shows "storable now (snd (add_member mid nm em self))"
proof (cases "Member mid nm em [] 3")
  case (Inl e)
  with assms show ?thesis by (simp add: add_member_def log_operation_def)
next
  case (Inr m)
  then have "member_id m = mid" "Member_post_init m = Inr ()"
    by (auto simp: Member_def Let_def bind_result_def split: sum.splits)
  with assms have "storable now (self\<lparr>members := AList.update mid m (members self)\<rparr>)"
    by (intro storable_member_update) simp_all
  with Inr assms show ?thesis by (simp add: add_member_def log_operation_def)
qed

lemma borrow_book_state:
  "snd (borrow_book now i mid days self) = self \<or>
   (\<exists>b m r b'. map_of (books self) i = Some b \<and> map_of (members self) mid = Some m \<and>
      Book_borrow now mid days b = (r, b') \<and>
      (snd (borrow_book now i mid days self)
         = self\<lparr>books := AList.update i b' (books self)\<rparr> \<or>
       snd (borrow_book now i mid days self)
         = self\<lparr>books := AList.update i b' (books self),
                members := AList.update mid (add_borrowed_book i m) (members self)\<rparr>))"
  by (auto simp: borrow_book_def op_defs split: option.splits prod.splits sum.splits)

lemma return_book_state:
  "snd (return_book i mid self) = self \<or>
   (\<exists>b m r b'. map_of (books self) i = Some b \<and> map_of (members self) mid = Some m \<and>
      Book_return_book b = (r, b') \<and>
      (snd (return_book i mid self)
         = self\<lparr>books := AList.update i b' (books self)\<rparr> \<or>
       snd (return_book i mid self)
         = self\<lparr>books := AList.update i b' (books self),
                members := AList.update mid (remove_borrowed_book i m) (members self)\<rparr>))"
  by (auto simp: return_book_def op_defs split: option.splits prod.splits sum.splits)

lemma storable_both_update:
  assumes "storable now self" and "isbn b' = i" and "Book_post_init now b' = Inr ()"
      and "\<forall>d. due_date b' = Some d \<longrightarrow> valid_datetime d"
      and "member_id m' = mid" and "Member_post_init m' = Inr ()"
  shows "storable now (self\<lparr>books := AList.update i b' (books self),
                            members := AList.update mid m' (members self)\<rparr>)"
proof -
  let ?s1 = "self\<lparr>books := AList.update i b' (books self)\<rparr>"
  have "storable now ?s1" using assms(1-4) by (rule storable_book_update)
  then have "storable now (?s1\<lparr>members := AList.update mid m' (members ?s1)\<rparr>)"
    using assms(5,6) by (rule storable_member_update)
  then show ?thesis by simp
qed

lemma borrow_book_storable:
  assumes "storable now self" and "valid_datetime now0"
  shows "storable now (snd (borrow_book now0 i mid days self))"
proof -
  from borrow_book_state [of now0 i mid days self]
  consider (same) "snd (borrow_book now0 i mid days self) = self"
    | (changed) b m r b' where "map_of (books self) i = Some b"
        "map_of (members self) mid = Some m" "Book_borrow now0 mid days b = (r, b')"
        "snd (borrow_book now0 i mid days self)
           = self\<lparr>books := AList.update i b' (books self)\<rparr> \<or>
         snd (borrow_book now0 i mid days self)
           = self\<lparr>books := AList.update i b' (books self),
                  members := AList.update mid (add_borrowed_book i m) (members self)\<rparr>"
    by blast
  then show ?thesis
  proof cases
    case same
    with assms(1) show ?thesis by simp
  next
    case changed
    note b = storable_lookup_book [OF assms(1) changed(1)]
    note m = storable_lookup_member [OF assms(1) changed(2)]
    note f = Book_borrow_fields [OF changed(3)]
    have i: "isbn b' = i" using b f by simp
    have v: "Book_post_init now b' = Inr ()" using b f by (auto simp: Book_post_init_fields)
    have d: "\<forall>d. due_date b' = Some d \<longrightarrow> valid_datetime d"
      using Book_borrow_due [OF assms(2) changed(3)] b by blast
    have mi: "member_id (add_borrowed_book i m) = mid"
      and mv: "Member_post_init (add_borrowed_book i m) = Inr ()"
      using m by (auto simp: add_borrowed_book_def Member_post_init_def split: if_splits)
    from changed(4) show ?thesis
    proof
      assume "snd (borrow_book now0 i mid days self)
                = self\<lparr>books := AList.update i b' (books self)\<rparr>"
      then show ?thesis using storable_book_update [OF assms(1) i v d] by simp
    next
      assume "snd (borrow_book now0 i mid days self)
                = self\<lparr>books := AList.update i b' (books self),
                       members := AList.update mid (add_borrowed_book i m) (members self)\<rparr>"
      then show ?thesis using storable_both_update [OF assms(1) i v d mi mv] by simp
    qed
  qed
qed

lemma return_book_storable:
  assumes "storable now self"
  shows "storable now (snd (return_book i mid self))"
proof -
  from return_book_state [of i mid self]
  consider (same) "snd (return_book i mid self) = self"
    | (changed) b m r b' where "map_of (books self) i = Some b"
        "map_of (members self) mid = Some m" "Book_return_book b = (r, b')"
        "snd (return_book i mid self)
           = self\<lparr>books := AList.update i b' (books self)\<rparr> \<or>
         snd (return_book i mid self)
           = self\<lparr>books := AList.update i b' (books self),
                  members := AList.update mid (remove_borrowed_book i m) (members self)\<rparr>"
    by blast
  then show ?thesis
  proof cases
    case same
    with assms(1) show ?thesis by simp
  next
    case changed
    note b = storable_lookup_book [OF assms(1) changed(1)]
    note m = storable_lookup_member [OF assms(1) changed(2)]
    note f = Book_return_book_fields [OF changed(3)]
    have i: "isbn b' = i" using b f by simp
    have v: "Book_post_init now b' = Inr ()" using b f by (auto simp: Book_post_init_fields)
    have d: "\<forall>d. due_date b' = Some d \<longrightarrow> valid_datetime d"
      using f b by auto
    have mi: "member_id (remove_borrowed_book i m) = mid"
      and mv: "Member_post_init (remove_borrowed_book i m) = Inr ()"
      using m by (auto simp: remove_borrowed_book_def Member_post_init_def split: if_splits)
    from changed(4) show ?thesis
    proof
      assume "snd (return_book i mid self)
                = self\<lparr>books := AList.update i b' (books self)\<rparr>"
      then show ?thesis using storable_book_update [OF assms(1) i v d] by simp
    next
      assume "snd (return_book i mid self)
                = self\<lparr>books := AList.update i b' (books self),
                       members := AList.update mid (remove_borrowed_book i m) (members self)\<rparr>"
      then show ?thesis using storable_both_update [OF assms(1) i v d mi mv] by simp
    qed
  qed
qed

lemma load_empty_object:
  "load_books (\<lambda>s. Inr (VDict [])) now \<lparr>books_file = Some ''{}'', members_file = None\<rparr> self
     = (Inr (), self\<lparr>books := []\<rparr>)"
  by (simp add: load_books_def nonempty_file_def bind_result_def iterate_def)

subsection \<open>Transaction: commit\<close>

lemma update_append_new: "k \<notin> set (map fst al) \<Longrightarrow> AList.update k v al = al @ [(k, v)]"
  by (induction al) auto

lemma dict_comprehension_entries:
  assumes "\<forall>(k, v) \<in> set kvs. f (g v) = Inr (k, v)"
      and "distinct (map fst acc @ map fst kvs)"
  shows "dict_comprehension f (map (\<lambda>kv. g (snd kv)) kvs) acc = Inr (acc @ kvs)"
  using assms
proof (induction kvs arbitrary: acc)
  case Nil
  then show ?case by simp
next
  case (Cons kv kvs)
  obtain k v where kv: "kv = (k, v)" by (cases kv)
  have f: "f (g v) = Inr (k, v)" using Cons.prems(1) kv by simp
  have new: "k \<notin> set (map fst acc)" using Cons.prems(2) kv by auto
  have "dict_comprehension f (map (\<lambda>kv. g (snd kv)) kvs) (acc @ [(k, v)])
          = Inr ((acc @ [(k, v)]) @ kvs)"
    using Cons.prems kv by (intro Cons.IH) auto
  then show ?case
    by (simp add: kv f bind_result_def update_append_new [OF new])
qed

lemma book_entry_to_dict:
  assumes "Book_post_init now b = Inr ()" and "\<forall>d. due_date b = Some d \<longrightarrow> valid_datetime d"
  shows "book_entry now (VDict (Book_to_dict b)) = Inr (isbn b, b)"
proof -
  have "getitem (Book_to_dict b) ''isbn'' = Inr (VStr (isbn b))"
    by (simp add: getitem_def Book_to_dict_def)
  then show ?thesis
    by (simp add: book_entry_def as_dict_def as_str_def bind_result_def
          Book_roundtrip [OF assms])
qed

lemma member_entry_to_dict:
  assumes "Member_post_init m = Inr ()"
  shows "member_entry (VDict (Member_to_dict m)) = Inr (member_id m, m)"
proof -
  have "getitem (Member_to_dict m) ''member_id'' = Inr (VStr (member_id m))"
    by (simp add: getitem_def Member_to_dict_def)
  then show ?thesis
    by (simp add: member_entry_def as_dict_def as_str_def bind_result_def
          Member_roundtrip [OF assms])
qed

lemma load_saved_books:
  assumes "storable now self"
  shows "dict_comprehension (book_entry now)
           (map (\<lambda>book. VDict (Book_to_dict book)) (map snd (books self))) [] = Inr (books self)"
proof -
  have "dict_comprehension (book_entry now)
          (map (\<lambda>kv. VDict (Book_to_dict (snd kv))) (books self)) [] = Inr ([] @ books self)"
  proof (rule dict_comprehension_entries)
    show "\<forall>(k, v) \<in> set (books self). book_entry now (VDict (Book_to_dict v)) = Inr (k, v)"
    proof clarify
      fix k b
      assume "(k, b) \<in> set (books self)"
      with assms have "isbn b = k" and "Book_post_init now b = Inr ()"
        and "\<forall>d. due_date b = Some d \<longrightarrow> valid_datetime d"
        by (auto simp: storable_def keyed_def list_all_iff)
      then show "book_entry now (VDict (Book_to_dict b)) = Inr (k, b)"
        using book_entry_to_dict [of now b] by simp
    qed
    show "distinct (map fst [] @ map fst (books self))"
      using assms by (simp add: storable_def keyed_def)
  qed
  then show ?thesis by (simp add: comp_def)
qed

lemma load_saved_members:
  assumes "storable now self"
  shows "dict_comprehension member_entry
           (map (\<lambda>m. VDict (Member_to_dict m)) (map snd (members self))) [] = Inr (members self)"
proof -
  have "dict_comprehension member_entry
          (map (\<lambda>kv. VDict (Member_to_dict (snd kv))) (members self)) []
          = Inr ([] @ members self)"
  proof (rule dict_comprehension_entries)
    show "\<forall>(k, v) \<in> set (members self). member_entry (VDict (Member_to_dict v)) = Inr (k, v)"
    proof clarify
      fix k m
      assume "(k, m) \<in> set (members self)"
      with assms have "member_id m = k" and "Member_post_init m = Inr ()"
        by (auto simp: storable_def keyed_def list_all_iff)
      then show "member_entry (VDict (Member_to_dict m)) = Inr (k, m)"
        using member_entry_to_dict [of m] by simp
    qed
    show "distinct (map fst [] @ map fst (members self))"
      using assms by (simp add: storable_def keyed_def)
  qed
  then show ?thesis by (simp add: comp_def)
qed

lemma load_after_save:
  assumes "storable now self"
      and "codec_ok json_dump json_load (books_document self)"
      and "codec_ok json_dump json_load (members_document self)"
  shows "Library json_load now (save json_dump self fs) = (Inr (), self)"
  using assms load_saved_books [OF assms(1)] load_saved_members [OF assms(1)]
  by (simp add: Library_def load_data_def load_books_def load_members_def save_def
        measure_time_def nonempty_file_def codec_ok_def books_document_def
        members_document_def bind_result_def iterate_def Let_def)

text \<open>
  C5. When the body of a transaction returns without an error, the transaction saves the
  catalog as the body left it; and for a catalog as the public interface builds it, with
  \<^verbatim>\<open>json.load\<close> reading back what \<^verbatim>\<open>json.dump\<close> wrote, a fresh \<^verbatim>\<open>Library\<close> on the written
  files holds exactly the books and members of the catalog at the commit, in their order.
\<close>

theorem transaction_commit:
  assumes "body (self, fs) = (Inr (), self', fs')"
      and "storable now self'"
      and "codec_ok json_dump json_load (books_document self')"
      and "codec_ok json_dump json_load (members_document self')"
  shows "transaction json_dump body (self, fs) = (Inr (), self', save json_dump self' fs') \<and>
         Library json_load now (save json_dump self' fs') = (Inr (), self')"
  using assms(1) load_after_save [OF assms(2-4)]
  by (simp add: transaction_def deepcopy_def)

lemma committing_body_returns:
  "committing_body (small_library, no_files) = (Inr (), committed_library, no_files)"
  by (simp add: committing_body_def add_book_def op_defs small_library_def Book_def
        Book_post_init_def bind_result_def fixture_now_def sample_book_def committed_library_def)

lemma committed_storable: "storable fixture_now committed_library"
  by (simp add: storable_def keyed_def committed_library_def sample_book_def sample_member_def
        Book_post_init_def Member_post_init_def fixture_now_def)

lemma committed_texts_differ:
  "json_text (books_document committed_library) \<noteq> json_text (members_document committed_library)"
  by (simp add: books_document_def members_document_def committed_library_def
        Book_to_dict_def Member_to_dict_def quoted_def)

lemma committed_codec:
  "codec_ok json_text committed_json_load (books_document committed_library) \<and>
   codec_ok json_text committed_json_load (members_document committed_library)"
  using committed_texts_differ
  by (simp add: codec_ok_def committed_json_load_def)
     (simp add: books_document_def members_document_def)

theorem transaction_commit_witness:
  "committing_body (small_library, no_files) = (Inr (), committed_library, no_files) \<and>
   storable fixture_now committed_library \<and>
   codec_ok json_text committed_json_load (books_document committed_library) \<and>
   codec_ok json_text committed_json_load (members_document committed_library) \<and>
   transaction json_text committing_body (small_library, no_files)
     = (Inr (), committed_library, save json_text committed_library no_files) \<and>
   Library committed_json_load fixture_now (save json_text committed_library no_files)
     = (Inr (), committed_library) \<and>
   map fst (books committed_library)
     = map fst (books small_library) @ [''978-0134494166'', ''978-1491904244'']"
  using transaction_commit
          [where body = committing_body and self = small_library and fs = no_files
             and self' = committed_library and fs' = no_files and now = fixture_now
             and json_dump = json_text and json_load = committed_json_load]
        committing_body_returns committed_storable committed_codec
  by (simp add: committed_library_def small_library_def)

end
